theory Spec2Isabelle
  imports Complex_Main
begin

section \<open>Retry with exponential backoff\<close>

text \<open>
  \<^verbatim>\<open>retryWithBackoff(fn, maxRetries = 3, initialDelay = 1000)\<close> of
  \<^verbatim>\<open>supabase/functions/withdraw-funds/index.ts\<close>. The operation \<open>fn\<close> has effects, so
  it is given as the outcome of its \<open>i\<close>-th invocation: \<open>Inl e\<close> when the invocation
  throws \<open>e\<close>, \<open>Inr v\<close> when it resolves to \<open>v\<close>. The loop returns what the source
  returns or throws (\<open>Inl lastError\<close>, where \<open>None\<close> is the initial \<^verbatim>\<open>null\<close>)
  together with the trace of invocations and sleeps, in order. Delays are milliseconds.
\<close>

datatype retry_event = Attempt nat | Sleep nat

function retry_loop ::
  "(nat \<Rightarrow> 'e + 'a) \<Rightarrow> nat \<Rightarrow> nat \<Rightarrow> nat \<Rightarrow> 'e option \<Rightarrow> ('e option + 'a) \<times> retry_event list"
where
  "retry_loop fn maxRetries initialDelay i lastError =
     (if i < maxRetries then
        (case fn i of
           Inr v \<Rightarrow> (Inr v, [Attempt i])
         | Inl err \<Rightarrow>
             (let rest = retry_loop fn maxRetries initialDelay (i + 1) (Some err)
              in if i < maxRetries - 1
                 then (fst rest, Attempt i # Sleep (initialDelay * 2 ^ i) # snd rest)
                 else (fst rest, Attempt i # snd rest)))
      else (Inl lastError, []))"
  by pat_completeness auto
termination
  by (relation "measure (\<lambda>(fn, maxRetries, initialDelay, i, lastError). maxRetries - i)") auto

declare retry_loop.simps [simp del]

definition retryWithBackoff ::
  "(nat \<Rightarrow> 'e + 'a) \<Rightarrow> nat \<Rightarrow> nat \<Rightarrow> ('e option + 'a) \<times> retry_event list"
where
  "retryWithBackoff fn maxRetries initialDelay = retry_loop fn maxRetries initialDelay 0 None"

text \<open>
  The sleep that immediately precedes invocation \<open>i\<close> in a trace, if there is one:
  the notion of "the delay before attempt \<open>i\<close>".
\<close>

fun delay_before :: "nat \<Rightarrow> retry_event list \<Rightarrow> nat option" where
  "delay_before i (Sleep d # Attempt j # tr) =
     (if j = i then Some d else delay_before i (Attempt j # tr))"
| "delay_before i (ev # tr) = delay_before i tr"
| "delay_before i [] = None"

text \<open>The trace of \<open>k\<close> failed invocations starting at \<open>i\<close>, each followed by its sleep.\<close>

fun backoff_prefix :: "nat \<Rightarrow> nat \<Rightarrow> nat \<Rightarrow> retry_event list" where
  "backoff_prefix initialDelay i 0 = []"
| "backoff_prefix initialDelay i (Suc k) =
     Attempt i # Sleep (initialDelay * 2 ^ i) # backoff_prefix initialDelay (Suc i) k"


section \<open>Withdrawal fee schedule\<close>

text \<open>
  \<^verbatim>\<open>calculateFee(amt, method)\<close>. Amounts are JavaScript numbers; they are modelled as
  exact rationals, so \<^verbatim>\<open>amt * 0.005\<close> is \<open>amt * (5 / 1000)\<close> and
  \<^verbatim>\<open>Math.floor\<close> is \<open>\<lfloor>_\<rfloor>\<close>.
\<close>

definition calculateFee :: "rat \<Rightarrow> string \<Rightarrow> rat" where
  "calculateFee amt method =
     (if method = ''mpesa'' then
        (if amt \<le> 100 then 0
         else if amt \<le> 2500 then 15
         else if amt \<le> 3500 then 25
         else if amt \<le> 5000 then 30
         else if amt \<le> 7500 then 45
         else if amt \<le> 10000 then 50
         else max 50 (of_int \<lfloor>amt * (5 / 1000)\<rfloor>))
      else if method = ''airtel'' then
        (if amt \<le> 100 then 0
         else if amt \<le> 2500 then 15
         else if amt \<le> 5000 then 30
         else max 50 (of_int \<lfloor>amt * (5 / 1000)\<rfloor>))
      else if method = ''bank'' then max 25 (of_int \<lfloor>amt * (1 / 1000)\<rfloor>)
      else 0)"


section \<open>Strings\<close>

text \<open>
  Texts the handlers only compare, search and pass on (payment methods, provider
  messages and codes, e-mail addresses, identifiers) are byte strings, with
  \<^verbatim>\<open>toLowerCase\<close> and \<^verbatim>\<open>toUpperCase\<close> on ASCII letters,
  \<^verbatim>\<open>startsWith\<close> and \<^verbatim>\<open>includes\<close>.
\<close>

definition lower_char :: "char \<Rightarrow> char" where
  "lower_char c =
     (if 65 \<le> (of_char c :: nat) \<and> (of_char c :: nat) \<le> 90
      then char_of (of_char c + 32 :: nat) else c)"

definition upper_char :: "char \<Rightarrow> char" where
  "upper_char c =
     (if 97 \<le> (of_char c :: nat) \<and> (of_char c :: nat) \<le> 122
      then char_of (of_char c - 32 :: nat) else c)"

definition toLowerCase :: "string \<Rightarrow> string" where
  "toLowerCase s = map lower_char s"

definition toUpperCase :: "string \<Rightarrow> string" where
  "toUpperCase s = map upper_char s"

definition startsWith :: "'a list \<Rightarrow> 'a list \<Rightarrow> bool" where
  "startsWith s p = (take (length p) s = p)"

fun includes_str :: "string \<Rightarrow> string \<Rightarrow> bool" where
  "includes_str [] p = (p = [])"
| "includes_str (c # cs) p = (startsWith (c # cs) p \<or> includes_str cs p)"

text \<open>
  The fields of \<^verbatim>\<open>destinationDetails\<close> are JavaScript strings on which the
  handler works character by character: they are the lists of their UTF-16 code units.
  \<open>units\<close> gives the code units of an ASCII text. \<open>is_space\<close> is the white space of
  \<^verbatim>\<open>trim()\<close> and of \<^verbatim>\<open>\s\<close>: TAB to CR, SPACE, NBSP, U+1680, U+2000 to U+200A,
  U+2028, U+2029, U+202F, U+205F, U+3000 and U+FEFF.
\<close>

type_synonym js_string = "int list"

definition units :: "string \<Rightarrow> js_string" where
  "units s = map of_char s"

definition is_space :: "int \<Rightarrow> bool" where
  "is_space c =
     ((9 \<le> c \<and> c \<le> 13) \<or> c = 32 \<or> c = 160 \<or> c = 5760 \<or> (8192 \<le> c \<and> c \<le> 8202) \<or>
      c = 8232 \<or> c = 8233 \<or> c = 8239 \<or> c = 8287 \<or> c = 12288 \<or> c = 65279)"

definition trim :: "js_string \<Rightarrow> js_string" where
  "trim s = rev (dropWhile is_space (rev (dropWhile is_space s)))"

definition strip_separators :: "js_string \<Rightarrow> js_string" where
  \<comment> \<open>\<^verbatim>\<open>.replace(/\s+/g, '').replace(/-/g, '')\<close>; 45 is the hyphen\<close>
  "strip_separators s = filter (\<lambda>c. c \<noteq> 45) (filter (\<lambda>c. \<not> is_space c) s)"

definition strip_plus :: "js_string \<Rightarrow> js_string" where
  \<comment> \<open>\<^verbatim>\<open>.replace(/^\+/, '')\<close>; 43 is the plus sign\<close>
  "strip_plus s = (case s of [] \<Rightarrow> [] | c # cs \<Rightarrow> if c = 43 then cs else c # cs)"

definition or_default :: "string option \<Rightarrow> string \<Rightarrow> string" where
  \<comment> \<open>\<^verbatim>\<open>x || d\<close> on an optional string: absent and empty are both falsy\<close>
  "or_default x d = (case x of None \<Rightarrow> d | Some v \<Rightarrow> if v = [] then d else v)"


section \<open>Outbound calls\<close>

text \<open>
  What one \<^verbatim>\<open>fetch\<close> does is decided by the environment: the timer of
  \<^verbatim>\<open>fetchWithTimeout\<close> fires first (\<open>Aborted\<close>), \<^verbatim>\<open>fetch\<close> rejects with another
  error (\<open>Threw\<close>, with its message), or a response arrives. A response carries its HTTP
  status and its JSON body; \<open>None\<close> is a body on which \<^verbatim>\<open>response.json()\<close> throws.
  JSON bodies are taken to be objects with the fields the handler reads.
\<close>

datatype 'r fetch_outcome = Aborted | Threw string | Responded 'r

record 'b http_response =
  http_status :: nat
  json :: "'b option"

definition ok :: "('b, 'x) http_response_scheme \<Rightarrow> bool" where
  "ok r = (200 \<le> http_status r \<and> http_status r \<le> 299)"

definition fetchWithTimeout :: "'r fetch_outcome \<Rightarrow> string + 'r" where
  "fetchWithTimeout out =
     (case out of
        Aborted \<Rightarrow> Inl ''network_timeout''
      | Threw m \<Rightarrow> Inl m
      | Responded r \<Rightarrow> Inr r)"

definition error_message :: "string option \<Rightarrow> string \<Rightarrow> string" where
  \<comment> \<open>\<^verbatim>\<open>e instanceof Error ? e.message : d\<close>; a thrown \<^verbatim>\<open>null\<close> is \<open>None\<close>\<close>
  "error_message e d = (case e of None \<Rightarrow> d | Some m \<Rightarrow> m)"

record balance_json =
  balance_status :: bool
  balance_data :: "rat option list option"

record bank =
  bank_name_of :: string
  bank_slug :: string
  bank_code :: string

record banks_json =
  banks_status :: bool
  banks_message :: "string option"
  banks_data :: "bank list"

record recipient_json =
  recipient_status :: bool
  recipient_message :: "string option"
  recipient_error_code :: "string option"
  recipient_data :: "string option"

record transfer_json =
  transfer_status :: bool
  transfer_message :: "string option"
  transfer_code :: "string option"
  transfer_reference :: "string option"


section \<open>Requests, ledger and responses\<close>

record user =
  user_id :: string
  user_email :: "string option"

text \<open>An absent field of \<^verbatim>\<open>destinationDetails\<close> is the empty string: both are falsy.\<close>

record destination_details =
  phone_number :: js_string
  account_number :: js_string
  bank_name :: js_string
  account_name :: js_string

text \<open>
  The request body of the withdrawal handler. \<open>amount = None\<close> is an \<^verbatim>\<open>amount\<close> that
  is missing or not of type number.
\<close>

record withdraw_request =
  amount :: "rat option"
  paymentMethod :: string
  destinationDetails :: "destination_details option"

record metadata =
  payment_method :: string
  metadata_destination :: destination_details
  metadata_fee :: rat
  metadata_net_amount :: rat

datatype reference = Provider_reference string | Generated_reference

datatype description =
    Withdrawal_to js_string rat
  | Transfer_to string rat
  | Transfer_from string

text \<open>A row of \<^verbatim>\<open>wallet_transactions\<close>.\<close>

record transaction =
  tx_user_id :: string
  tx_type :: string
  tx_amount :: rat
  tx_description :: description
  tx_status :: string
  tx_reference_id :: "reference option"
  tx_metadata :: "metadata option"

text \<open>
  The ledger: the \<^verbatim>\<open>balance\<close> column of \<^verbatim>\<open>user_central_wallets\<close> by
  \<^verbatim>\<open>user_id\<close>, and the rows of \<^verbatim>\<open>wallet_transactions\<close> in insertion order.
\<close>

record store =
  wallets :: "string \<Rightarrow> rat option"
  transactions :: "transaction list"

text \<open>
  \<^verbatim>\<open>.update({ balance: b }).eq('user_id', uid)\<close> when the store accepts it: the
  rows that match are written, and there is at most one.
\<close>

definition update_balance :: "store \<Rightarrow> string \<Rightarrow> rat \<Rightarrow> store" where
  "update_balance st uid b =
     (case wallets st uid of
        None \<Rightarrow> st
      | Some old \<Rightarrow> st\<lparr>wallets := (wallets st)(uid \<mapsto> b)\<rparr>)"

text \<open>
  What a handler does to the outside, in order. A provider call carries the trace of
  its retry loop; a ledger write is listed whether or not the store accepts it.
\<close>

datatype event =
    Get_balance "retry_event list"
  | Get_banks "retry_event list"
  | Create_recipient js_string "retry_event list"
  | Create_bank_recipient "retry_event list"
  | Post_transfer int string "retry_event list"
  | List_users
  | Select_wallet string
  | Update_wallet string rat
  | Insert_transactions "transaction list"

fun provider_call :: "event \<Rightarrow> bool" where
  "provider_call (Get_balance tr) = True"
| "provider_call (Get_banks tr) = True"
| "provider_call (Create_recipient phone tr) = True"
| "provider_call (Create_bank_recipient tr) = True"
| "provider_call (Post_transfer amt rc tr) = True"
| "provider_call ev = False"

fun transfer_call :: "event \<Rightarrow> bool" where
  "transfer_call (Post_transfer amt rc tr) = True"
| "transfer_call ev = False"

fun ledger_access :: "event \<Rightarrow> bool" where
  "ledger_access (Select_wallet uid) = True"
| "ledger_access (Update_wallet uid b) = True"
| "ledger_access (Insert_transactions txs) = True"
| "ledger_access ev = False"

datatype message =
    Text string
  | Amount_too_low_message rat
  | Provider_not_available string

record withdrawal_result =
  result_amount :: rat
  result_fee :: rat
  result_netAmount :: rat
  result_destination :: js_string
  result_paymentMethod :: string
  result_reference :: "string option"
  result_newBalance :: rat

text \<open>
  A response of the withdrawal handler: the HTTP status and the fields of its JSON body
  (\<open>None\<close> for a field the body does not have). \<open>Amount_too_low_message m\<close> stands for
  \<^verbatim>\<open>Withdrawal amount too low. Minimum amount after fees: KES ${m}\<close> and
  \<open>Provider_not_available p\<close> for \<^verbatim>\<open>${p} provider not available\<close>. The
  \<^verbatim>\<open>details\<close> text of the \<^verbatim>\<open>internal_error\<close> response is left out.
\<close>

record response =
  status :: nat
  error :: "message option"
  success :: "bool option"
  code :: "string option"
  response_fee :: "rat option"
  result :: "withdrawal_result option"

definition preflight :: response where
  "preflight = \<lparr>status = 200, error = None, success = None, code = None,
                 response_fee = None, result = None\<rparr>"

definition error_only :: "nat \<Rightarrow> string \<Rightarrow> response" where
  "error_only st msg = \<lparr>status = st, error = Some (Text msg), success = None, code = None,
                         response_fee = None, result = None\<rparr>"

definition failure :: "nat \<Rightarrow> message \<Rightarrow> string option \<Rightarrow> response" where
  "failure st msg cd = \<lparr>status = st, error = Some msg, success = Some False, code = cd,
                         response_fee = None, result = None\<rparr>"

definition internal_error :: response where
  \<comment> \<open>the outer \<^verbatim>\<open>catch\<close> of the handler\<close>
  "internal_error =
     failure 500 (Text ''Withdrawal request failed. Please try again.'') (Some ''internal_error'')"

text \<open>
  The environment of one withdrawal request: who the bearer credential authenticates,
  whether the provider key is configured, the outcome of each invocation of each outbound
  call (by invocation number within its retry loop; recipient creation also by the account
  number sent), and which ledger operations the store refuses.
\<close>

record withdraw_env =
  options_request :: bool
  auth_user :: "user option"
  wallet_select_error :: bool
  paystack_secret_key :: "string option"
  balance_fetch :: "nat \<Rightarrow> balance_json http_response fetch_outcome"
  banks_fetch :: "nat \<Rightarrow> banks_json http_response fetch_outcome"
  recipient_fetch :: "js_string \<Rightarrow> nat \<Rightarrow> recipient_json http_response fetch_outcome"
  bank_recipient_fetch :: "nat \<Rightarrow> recipient_json http_response fetch_outcome"
  transfer_fetch :: "nat \<Rightarrow> transfer_json http_response fetch_outcome"
  wallet_update_error :: bool
  transaction_insert_error :: bool


section \<open>The withdrawal handler\<close>

subsection \<open>Validation and the local balance\<close>

definition validate_request ::
  "withdraw_request \<Rightarrow> response + (rat \<times> destination_details)"
where
  "validate_request req =
     (case amount req of
        None \<Rightarrow> Inl (failure 400 (Text ''Please enter a valid withdrawal amount'')
                      (Some ''invalid_amount''))
      | Some a \<Rightarrow>
          if a \<le> 0 then
            Inl (failure 400 (Text ''Please enter a valid withdrawal amount'')
                   (Some ''invalid_amount''))
          else
            (case destinationDetails req of
               None \<Rightarrow> Inl (error_only 400 ''Destination details required'')
             | Some d \<Rightarrow>
                 if paymentMethod req = ''bank'' then
                   (if account_number d = [] \<or> bank_name d = [] \<or> account_name d = []
                    then Inl (error_only 400 ''Bank account details incomplete'')
                    else Inr (a, d))
                 else
                   (if phone_number d = []
                    then Inl (error_only 400 ''Phone number required for mobile money withdrawal'')
                    else Inr (a, d))))"

definition read_wallet :: "bool \<Rightarrow> store \<Rightarrow> user \<Rightarrow> rat \<Rightarrow> response + rat" where
  "read_wallet select_error st u a =
     (if select_error then Inl (failure 404 (Text ''Wallet not found'') None)
      else
        (case wallets st (user_id u) of
           None \<Rightarrow> Inl (failure 404 (Text ''Wallet not found'') None)
         | Some balance \<Rightarrow>
             if balance < a then Inl (failure 400 (Text ''Insufficient balance'') None)
             else Inr balance))"

definition check_net_amount :: "rat \<Rightarrow> string \<Rightarrow> response + (rat \<times> rat)" where
  "check_net_amount a method =
     (let fee = calculateFee a method;
          netAmount = a - fee
      in if netAmount \<le> 0 then
           Inl ((failure 400 (Amount_too_low_message (fee + 1)) (Some ''amount_too_low''))
                  \<lparr>response_fee := Some fee\<rparr>)
         else Inr (fee, netAmount))"


subsection \<open>The provider-side balance pre-check\<close>

text \<open>
  Lines 201 to 256: \<open>Some r\<close> is the early \<^verbatim>\<open>return\<close> of response \<open>r\<close>, \<open>None\<close> is
  falling through to recipient creation. A body on which \<^verbatim>\<open>json()\<close> throws lands in
  the \<^verbatim>\<open>catch\<close> with a message that is not \<^verbatim>\<open>network_timeout\<close>.
\<close>

definition check_paystack_balance ::
  "(nat \<Rightarrow> balance_json http_response fetch_outcome) \<Rightarrow> rat \<Rightarrow> response option \<times> event list"
where
  "check_paystack_balance fetch netAmount =
     (let attempt = retryWithBackoff (\<lambda>i. fetchWithTimeout (fetch i)) 3 1000
      in ((case fst attempt of
             Inr balanceResponse \<Rightarrow>
               if ok balanceResponse then
                 (case json balanceResponse of
                    None \<Rightarrow> None
                  | Some balanceData \<Rightarrow>
                      (case balance_data balanceData of
                         None \<Rightarrow> None
                       | Some entries \<Rightarrow>
                           if balance_status balanceData then
                             (let paystackBalance =
                                    (case entries of
                                       [] \<Rightarrow> 0
                                     | first # _ \<Rightarrow> (case first of None \<Rightarrow> 0 | Some b \<Rightarrow> b));
                                  paystackBalanceKES = paystackBalance / 100
                              in if paystackBalanceKES < netAmount then
                                   Some (failure 503
                                     (Text ''Insufficient funds in withdrawal service. Our team has been notified. Please try again later or contact support.'')
                                     (Some ''insufficient_balance''))
                                 else None)
                           else None))
               else None
           | Inl balanceError \<Rightarrow>
               if error_message balanceError ''unknown'' = ''network_timeout'' then
                 Some (failure 503
                   (Text ''Network timeout. Please check your connection and try again.'')
                   (Some ''network_error''))
               else None),
          [Get_balance (snd attempt)]))"

subsection \<open>Recipient resolution\<close>

definition fetch_banks ::
  "(nat \<Rightarrow> banks_json http_response fetch_outcome) \<Rightarrow> (response + banks_json) \<times> event list"
where
  "fetch_banks fetch =
     (let attempt = retryWithBackoff (\<lambda>i. fetchWithTimeout (fetch i)) 3 1000
      in ((case fst attempt of
             Inr banksResponse \<Rightarrow>
               (case json banksResponse of
                  None \<Rightarrow>
                    Inl (failure 503 (Text ''Payment service error. Please try again.'')
                           (Some ''service_error''))
                | Some banksData \<Rightarrow>
                    if \<not> ok banksResponse \<or> \<not> banks_status banksData then
                      Inl (failure (if http_status banksResponse \<ge> 500 then 503 else 400)
                             (Text (or_default (banks_message banksData)
                                      ''Payment service temporarily unavailable''))
                             (Some (if http_status banksResponse \<ge> 500
                                    then ''service_unavailable'' else ''payment_error'')))
                    else Inr banksData)
           | Inl fetchError \<Rightarrow>
               (let errorMsg = error_message fetchError ''unknown''
                in Inl (failure 503
                          (Text (if errorMsg = ''network_timeout''
                                 then ''Network timeout. Please try again.''
                                 else ''Payment service temporarily unavailable.''))
                          (Some (if errorMsg = ''network_timeout''
                                 then ''network_error'' else ''service_unavailable''))))),
          [Get_banks (snd attempt)]))"

definition matches_provider :: "string \<Rightarrow> bank \<Rightarrow> bool" where
  "matches_provider method b =
     (let name = toLowerCase (bank_name_of b);
          slug = toLowerCase (bank_slug b);
          code = toUpperCase (bank_code b)
      in if method = ''mpesa'' then
           code = ''MPESA'' \<or> includes_str name ''m-pesa'' \<or> includes_str name ''mpesa'' \<or>
           includes_str slug ''m-pesa'' \<or> includes_str slug ''mpesa''
         else if method = ''airtel'' then
           code = ''ATL_KE'' \<or> includes_str name ''airtel'' \<or> includes_str slug ''airtel''
         else False)"

definition intl_phone :: "js_string \<Rightarrow> js_string" where
  "intl_phone number =
     (let rawPhone = trim number;
          phoneNoSpaces = strip_separators rawPhone;
          intlPhone = strip_plus phoneNoSpaces
      in if startsWith intlPhone (units ''0'') then units ''254'' @ drop 1 intlPhone
         else if \<not> startsWith intlPhone (units ''254'') then units ''254'' @ intlPhone
         else intlPhone)"

definition local_phone :: "js_string \<Rightarrow> js_string" where
  "local_phone number =
     (let intlPhone = intl_phone number
      in if startsWith intlPhone (units ''254'') then units ''0'' @ drop 3 intlPhone
         else strip_separators (trim number))"

text \<open>The object \<^verbatim>\<open>createRecipientWithPhone\<close> returns.\<close>

record recipient_resp =
  resp_ok :: bool
  resp_data :: "recipient_json option"
  resp_message :: "string option"
  resp_code :: "string option"

definition createRecipientWithPhone ::
  "(js_string \<Rightarrow> nat \<Rightarrow> recipient_json http_response fetch_outcome) \<Rightarrow> js_string \<Rightarrow>
     recipient_resp \<times> event list"
where
  "createRecipientWithPhone fetch phone =
     (let attempt = retryWithBackoff (\<lambda>i. fetchWithTimeout (fetch phone i)) 3 1000
      in ((case fst attempt of
             Inr resp \<Rightarrow>
               (case json resp of
                  None \<Rightarrow>
                    \<lparr>resp_ok = False, resp_data = None,
                     resp_message = Some ''Payment service error'',
                     resp_code = Some ''service_error''\<rparr>
                | Some body \<Rightarrow>
                    \<lparr>resp_ok = (ok resp \<and> recipient_status body), resp_data = Some body,
                     resp_message = recipient_message body,
                     resp_code = recipient_error_code body\<rparr>)
           | Inl err \<Rightarrow>
               (let errorMsg = error_message err ''Network error''
                in \<lparr>resp_ok = False, resp_data = None,
                    resp_message = Some (if errorMsg = ''network_timeout''
                                         then ''Network timeout. Please try again.''
                                         else ''Payment service error''),
                    resp_code = Some (if errorMsg = ''network_timeout''
                                      then ''network_error'' else ''service_error'')\<rparr>)),
          [Create_recipient phone (snd attempt)]))"

definition rejected_as_invalid :: "recipient_resp \<Rightarrow> bool" where
  \<comment> \<open>the condition of the fallback at line 407\<close>
  "rejected_as_invalid r =
     (\<not> resp_ok r \<and>
      (case resp_message r of
         None \<Rightarrow> False
       | Some m \<Rightarrow> includes_str (toLowerCase m) ''account number is invalid''))"

text \<open>
  Lines 342 to 424. With \<open>resp_ok\<close> and no \<^verbatim>\<open>data\<close> object in the body, reading
  \<^verbatim>\<open>recipientResp.data.data.recipient_code\<close> throws into the handler's outer
  \<^verbatim>\<open>catch\<close>.
\<close>

definition resolve_mobile_recipient ::
  "(js_string \<Rightarrow> nat \<Rightarrow> recipient_json http_response fetch_outcome) \<Rightarrow> js_string \<Rightarrow>
     (response + string) \<times> event list"
where
  "resolve_mobile_recipient fetch number =
     (let intlPhone = intl_phone number;
          localPhone = local_phone number;
          first = createRecipientWithPhone fetch intlPhone;
          final = (if rejected_as_invalid (fst first)
                   then (let second = createRecipientWithPhone fetch localPhone
                         in (fst second, snd first @ snd second))
                   else first);
          recipientResp = fst final
      in ((if \<not> resp_ok recipientResp then
             Inl (failure (if resp_code recipientResp = Some ''network_error'' then 503 else 400)
                    (Text (or_default (resp_message recipientResp) ''Failed to create recipient''))
                    (Some (or_default (resp_code recipientResp) ''recipient_error'')))
           else
             (case resp_data recipientResp of
                None \<Rightarrow> Inl internal_error
              | Some body \<Rightarrow>
                  (case recipient_data body of
                     None \<Rightarrow> Inl internal_error
                   | Some recipient_code \<Rightarrow> Inr recipient_code))),
          snd final))"

definition resolve_mobile ::
  "withdraw_env \<Rightarrow> string \<Rightarrow> js_string \<Rightarrow> (response + string) \<times> event list"
where
  "resolve_mobile env method number =
     (let banks = fetch_banks (banks_fetch env)
      in (case fst banks of
            Inl r \<Rightarrow> (Inl r, snd banks)
          | Inr banksData \<Rightarrow>
              (case find (matches_provider method) (banks_data banksData) of
                 None \<Rightarrow>
                   (Inl (failure 400 (Provider_not_available (toUpperCase method)) None),
                    snd banks)
               | Some provider \<Rightarrow>
                   (let resolved = resolve_mobile_recipient (recipient_fetch env) number
                    in (fst resolved, snd banks @ snd resolved)))))"

text \<open>
  Lines 426 to 471. Here \<^verbatim>\<open>json()\<close> and the read of \<^verbatim>\<open>recipient_code\<close> are inside
  the \<^verbatim>\<open>try\<close>, so what they throw is answered as \<^verbatim>\<open>service_unavailable\<close>.
\<close>

definition create_bank_recipient ::
  "(nat \<Rightarrow> recipient_json http_response fetch_outcome) \<Rightarrow> (response + string) \<times> event list"
where
  "create_bank_recipient fetch =
     (let attempt = retryWithBackoff (\<lambda>i. fetchWithTimeout (fetch i)) 3 1000;
          unavailable = failure 503 (Text ''Payment service temporarily unavailable'')
                          (Some ''service_unavailable'')
      in ((case fst attempt of
             Inr recipientResponse \<Rightarrow>
               (case json recipientResponse of
                  None \<Rightarrow> Inl unavailable
                | Some recipientData \<Rightarrow>
                    if \<not> ok recipientResponse \<or> \<not> recipient_status recipientData then
                      Inl (failure (if http_status recipientResponse \<ge> 500 then 503 else 400)
                             (Text (or_default (recipient_message recipientData)
                                      ''Failed to create bank recipient''))
                             (Some (if http_status recipientResponse \<ge> 500
                                    then ''service_unavailable'' else ''recipient_error'')))
                    else
                      (case recipient_data recipientData of
                         None \<Rightarrow> Inl unavailable
                       | Some recipient_code \<Rightarrow> Inr recipient_code))
           | Inl fetchError \<Rightarrow>
               (let errorMsg = error_message fetchError ''unknown''
                in if errorMsg = ''network_timeout'' then
                     Inl (failure 503 (Text ''Network timeout. Please try again.'')
                            (Some ''network_error''))
                   else Inl unavailable)),
          [Create_bank_recipient (snd attempt)]))"

definition resolve_recipient ::
  "withdraw_env \<Rightarrow> string \<Rightarrow> destination_details \<Rightarrow> (response + string) \<times> event list"
where
  "resolve_recipient env method d =
     (if method = ''mpesa'' \<or> method = ''airtel''
      then resolve_mobile env method (phone_number d)
      else create_bank_recipient (bank_recipient_fetch env))"


subsection \<open>Transfer initiation\<close>

definition math_round :: "rat \<Rightarrow> int" where
  \<comment> \<open>\<^verbatim>\<open>Math.round\<close>: halves go up\<close>
  "math_round x = \<lfloor>x + 1 / 2\<rfloor>"

definition initiate_transfer ::
  "(nat \<Rightarrow> transfer_json http_response fetch_outcome) \<Rightarrow> rat \<Rightarrow> string \<Rightarrow>
     (response + transfer_json) \<times> event list"
where
  "initiate_transfer fetch netAmount recipientCode =
     (let attempt = retryWithBackoff (\<lambda>i. fetchWithTimeout (fetch i)) 3 1000
      in ((case fst attempt of
             Inr transferResponse \<Rightarrow>
               (case json transferResponse of
                  None \<Rightarrow>
                    Inl (failure 503 (Text ''Payment service error. Please try again.'')
                           (Some ''service_error''))
                | Some transferData \<Rightarrow>
                    if \<not> ok transferResponse \<or> \<not> transfer_status transferData then
                      (let errorMessage = or_default (transfer_message transferData) ''Transfer failed''
                       in if transfer_code transferData = Some ''insufficient_balance'' \<or>
                             includes_str (toLowerCase errorMessage) ''balance is not enough''
                          then
                            Inl (failure 503
                              (Text ''Insufficient funds in withdrawal service. Our team has been notified. Please try again later or contact support.'')
                              (Some ''insufficient_balance''))
                          else if http_status transferResponse \<ge> 500 then
                            Inl (failure 503
                              (Text ''Payment service temporarily unavailable. Please try again later.'')
                              (Some ''service_unavailable''))
                          else Inl (failure 400 (Text errorMessage) (transfer_code transferData)))
                    else Inr transferData)
           | Inl fetchError \<Rightarrow>
               (let errorMsg = error_message fetchError ''unknown''
                in if errorMsg = ''network_timeout'' then
                     Inl (failure 503
                       (Text ''Network timeout. Please check your connection and try again.'')
                       (Some ''network_error''))
                   else
                     Inl (failure 503
                       (Text ''Payment service temporarily unavailable. Please try again.'')
                       (Some ''service_unavailable'')))),
          [Post_transfer (math_round (netAmount * 100)) recipientCode (snd attempt)]))"

subsection \<open>Ledger debit and transaction record\<close>

definition destination_summary :: "string \<Rightarrow> destination_details \<Rightarrow> js_string" where
  "destination_summary method d =
     (if method = ''bank'' then bank_name d @ units '' - '' @ account_number d else phone_number d)"

definition withdrawal_record ::
  "user \<Rightarrow> rat \<Rightarrow> string \<Rightarrow> destination_details \<Rightarrow> rat \<Rightarrow> transfer_json \<Rightarrow> transaction"
where
  "withdrawal_record u a method d fee transferData =
     \<lparr>tx_user_id = user_id u,
      tx_type = ''withdrawal'',
      tx_amount = - a,
      tx_description = Withdrawal_to (destination_summary method d) fee,
      tx_status = ''completed'',
      tx_reference_id =
        Some (case transfer_reference transferData of
                None \<Rightarrow> Generated_reference
              | Some r \<Rightarrow> if r = [] then Generated_reference else Provider_reference r),
      tx_metadata = Some \<lparr>payment_method = method, metadata_destination = d,
                          metadata_fee = fee, metadata_net_amount = a - fee\<rparr>\<rparr>"

text \<open>
  Lines 573 to 633. The update writes the balance read before the provider calls minus
  the gross amount; the result of the insert is not looked at.
\<close>

definition reconcile_ledger ::
  "withdraw_env \<Rightarrow> store \<Rightarrow> user \<Rightarrow> rat \<Rightarrow> string \<Rightarrow> destination_details \<Rightarrow> rat \<Rightarrow> rat \<Rightarrow>
     transfer_json \<Rightarrow> response \<times> event list \<times> store"
where
  "reconcile_ledger env st u a method d balance fee transferData =
     (if wallet_update_error env then
        (failure 500 (Text ''Failed to update wallet'') None,
         [Update_wallet (user_id u) (balance - a)], st)
      else
        (let debited = update_balance st (user_id u) (balance - a);
             entry = withdrawal_record u a method d fee transferData;
             recorded = (if transaction_insert_error env then debited
                         else debited\<lparr>transactions := transactions debited @ [entry]\<rparr>)
         in (\<lparr>status = 200, error = None, success = Some True, code = None,
              response_fee = Some fee,
              result = Some \<lparr>result_amount = a, result_fee = fee, result_netAmount = a - fee,
                              result_destination = destination_summary method d,
                              result_paymentMethod = method,
                              result_reference = transfer_reference transferData,
                              result_newBalance = balance - a\<rparr>\<rparr>,
             [Update_wallet (user_id u) (balance - a), Insert_transactions [entry]],
             recorded)))"

subsection \<open>The handler\<close>

text \<open>Transfer initiation and what follows it, for a resolved recipient.\<close>

definition settle ::
  "withdraw_env \<Rightarrow> store \<Rightarrow> user \<Rightarrow> rat \<Rightarrow> string \<Rightarrow> destination_details \<Rightarrow> rat \<Rightarrow> rat \<Rightarrow>
     string \<Rightarrow> response \<times> event list \<times> store"
where
  "settle env st u a method d balance fee recipientCode =
     (let transfer = initiate_transfer (transfer_fetch env) (a - fee) recipientCode
      in (case fst transfer of
            Inl r \<Rightarrow> (r, snd transfer, st)
          | Inr transferData \<Rightarrow>
              (let done = reconcile_ledger env st u a method d balance fee transferData
               in (fst done, snd transfer @ fst (snd done), snd (snd done)))))"

text \<open>Recipient resolution and what follows it: the steps after the balance pre-check.\<close>

definition payout ::
  "withdraw_env \<Rightarrow> store \<Rightarrow> user \<Rightarrow> rat \<Rightarrow> string \<Rightarrow> destination_details \<Rightarrow> rat \<Rightarrow> rat \<Rightarrow>
     response \<times> event list \<times> store"
where
  "payout env st u a method d balance fee =
     (let resolved = resolve_recipient env method d
      in (case fst resolved of
            Inl r \<Rightarrow> (r, snd resolved, st)
          | Inr recipientCode \<Rightarrow>
              (let settled = settle env st u a method d balance fee recipientCode
               in (fst settled, snd resolved @ fst (snd settled), snd (snd settled)))))"

text \<open>
  The withdrawal handler on a parsed request body (\<open>None\<close>: \<^verbatim>\<open>req.json()\<close> throws).
  It returns the response, the trace and the ledger afterwards.
\<close>

definition withdraw_funds ::
  "withdraw_env \<Rightarrow> withdraw_request option \<Rightarrow> store \<Rightarrow> response \<times> event list \<times> store"
where
  "withdraw_funds env body st =
     (if options_request env then (preflight, [], st)
      else
        (case auth_user env of
           None \<Rightarrow> (error_only 401 ''Unauthorized'', [], st)
         | Some u \<Rightarrow>
             (case body of
                None \<Rightarrow> (internal_error, [], st)
              | Some req \<Rightarrow>
                  (case validate_request req of
                     Inl r \<Rightarrow> (r, [], st)
                   | Inr (a, d) \<Rightarrow>
                       (case read_wallet (wallet_select_error env) st u a of
                          Inl r \<Rightarrow> (r, [Select_wallet (user_id u)], st)
                        | Inr balance \<Rightarrow>
                            if or_default (paystack_secret_key env) [] = [] then
                              (failure 500 (Text ''Payment service not configured'') None,
                               [Select_wallet (user_id u)], st)
                            else
                              (case check_net_amount a (paymentMethod req) of
                                 Inl r \<Rightarrow> (r, [Select_wallet (user_id u)], st)
                               | Inr (fee, netAmount) \<Rightarrow>
                                   (let checked = check_paystack_balance (balance_fetch env) netAmount
                                    in (case fst checked of
                                          Some r \<Rightarrow>
                                            (r, Select_wallet (user_id u) # snd checked, st)
                                        | None \<Rightarrow>
                                            (let paid = payout env st u a (paymentMethod req) d
                                                          balance fee
                                             in (fst paid,
                                                 Select_wallet (user_id u) # snd checked @ fst (snd paid),
                                                 snd (snd paid)))))))))))"


section \<open>The wallet-to-wallet transfer handler\<close>

text \<open>
  The second handler of the file (from line 650): a transfer between two central
  wallets, with its own fee.
\<close>

text \<open>
  \<^verbatim>\<open>Math.min(Math.max(amount * feePercentage, 10), 100)\<close> with
  \<^verbatim>\<open>feePercentage = 0.01\<close>. The product is a product of doubles, which need not be the
  hundredth of the amount (for 1004 it is 10.040000000000001), so it is not computed here:
  \<open>times_feePercentage\<close> stands for the function that takes an amount to the product
  the runtime computes, and the environment of a request supplies it.
\<close>

definition transactionFee :: "(rat \<Rightarrow> rat) \<Rightarrow> rat \<Rightarrow> rat" where
  "transactionFee times_feePercentage a = min (max (times_feePercentage a) 10) 100"

record transfer_request =
  recipientEmail :: string
  transfer_amount :: "rat option"

record transfer_result =
  remaining_balance :: rat
  amount_sent :: rat
  transfer_fee :: rat
  recipient :: string

record transfer_response =
  transfer_http_status :: nat
  transfer_error :: "string option"
  transfer_success :: "bool option"
  transfer_details :: "string option"
  reported_balance :: "rat option"
  transfer_result :: "transfer_result option"

definition transfer_failed :: "nat \<Rightarrow> string \<Rightarrow> string option \<Rightarrow> transfer_response" where
  "transfer_failed st msg det =
     \<lparr>transfer_http_status = st, transfer_error = Some msg, transfer_success = None,
      transfer_details = det, reported_balance = None, transfer_result = None\<rparr>"

text \<open>
  The environment of one transfer request: the product of doubles, the caller, the answer of
  \<^verbatim>\<open>auth.admin.listUsers()\<close> (\<open>None\<close>: it fails), and for each ledger operation of the
  handler whether the store refuses it (with the error's message where the handler
  reports it).
\<close>

record transfer_env =
  times_feePercentage :: "rat \<Rightarrow> rat"
  preflight_request :: bool
  caller :: "user option"
  listed_users :: "user list option"
  sender_select_error :: bool
  deduct_error :: "string option"
  recipient_select_error :: bool
  add_error :: "string option"
  rollback_error :: bool
  insert_error :: bool

definition same_email :: "string \<Rightarrow> user \<Rightarrow> bool" where
  \<comment> \<open>\<^verbatim>\<open>u.email?.toLowerCase() === recipientEmail.toLowerCase()\<close>\<close>
  "same_email email u =
     (case user_email u of
        None \<Rightarrow> False
      | Some e \<Rightarrow> toLowerCase e = toLowerCase email)"

definition transfer_records :: "user \<Rightarrow> user \<Rightarrow> string \<Rightarrow> rat \<Rightarrow> rat \<Rightarrow> transaction list" where
  "transfer_records sender matchingUser email a fee =
     [\<lparr>tx_user_id = user_id sender, tx_type = ''transfer'', tx_amount = - (a + fee),
       tx_description = Transfer_to email fee, tx_status = ''completed'',
       tx_reference_id = None, tx_metadata = None\<rparr>,
      \<lparr>tx_user_id = user_id matchingUser, tx_type = ''transfer'', tx_amount = a,
       tx_description = Transfer_from (or_default (user_email sender) ''user''),
       tx_status = ''completed'', tx_reference_id = None, tx_metadata = None\<rparr>]"

text \<open>
  Lines 755 to 832: the debit of the sender, the credit of the recipient with the
  rollback when it fails, and the two records. \<open>balance\<close> is the sender's balance as read
  by the handler. The results of the rollback and of the recipient's select are not
  looked at.
\<close>

definition move_funds ::
  "transfer_env \<Rightarrow> store \<Rightarrow> user \<Rightarrow> user \<Rightarrow> string \<Rightarrow> rat \<Rightarrow> rat \<Rightarrow> rat \<Rightarrow>
     transfer_response \<times> event list \<times> store"
where
  "move_funds env st sender matchingUser email a fee balance =
     (let totalAmount = a + fee;
          deduct = Update_wallet (user_id sender) (balance - totalAmount)
      in (case deduct_error env of
            Some m \<Rightarrow> (transfer_failed 500 ''Failed to deduct from sender'' (Some m), [deduct], st)
          | None \<Rightarrow>
              (let debited = update_balance st (user_id sender) (balance - totalAmount);
                   recipientBalance =
                     (if recipient_select_error env then 0
                      else (case wallets debited (user_id matchingUser) of
                              None \<Rightarrow> 0
                            | Some b \<Rightarrow> b));
                   recipientNewBalance = recipientBalance + a;
                   credit = [Select_wallet (user_id matchingUser),
                             Update_wallet (user_id matchingUser) recipientNewBalance]
               in (case add_error env of
                     Some m \<Rightarrow>
                       (transfer_failed 500 ''Failed to credit recipient'' (Some m),
                        deduct # credit @ [Update_wallet (user_id sender) balance],
                        (if rollback_error env then debited
                         else update_balance debited (user_id sender) balance))
                   | None \<Rightarrow>
                       (let credited = update_balance debited (user_id matchingUser)
                                         recipientNewBalance;
                            entries = transfer_records sender matchingUser email a fee;
                            recorded =
                              (if insert_error env then credited
                               else credited\<lparr>transactions := transactions credited @ entries\<rparr>)
                        in (\<lparr>transfer_http_status = 200, transfer_error = None,
                             transfer_success = Some True, transfer_details = None,
                             reported_balance = None,
                             transfer_result =
                               Some \<lparr>remaining_balance = balance - totalAmount,
                                     amount_sent = a, transfer_fee = fee,
                                     recipient = email\<rparr>\<rparr>,
                            deduct # credit @ [Insert_transactions entries],
                            recorded))))))"

text \<open>
  The handler on a parsed request body (\<open>None\<close>: \<^verbatim>\<open>req.json()\<close> throws, which the
  outer \<^verbatim>\<open>catch\<close> answers). A \<^verbatim>\<open>transfer_amount\<close> of \<open>None\<close> is a missing amount.
\<close>

definition wallet_transfer ::
  "transfer_env \<Rightarrow> transfer_request option \<Rightarrow> store \<Rightarrow> transfer_response \<times> event list \<times> store"
where
  "wallet_transfer env body st =
     (if preflight_request env then
        (\<lparr>transfer_http_status = 200, transfer_error = None, transfer_success = None,
          transfer_details = None, reported_balance = None, transfer_result = None\<rparr>, [], st)
      else
        (case caller env of
           None \<Rightarrow> (transfer_failed 401 ''Unauthorized'' None, [], st)
         | Some sender \<Rightarrow>
             (case body of
                None \<Rightarrow> (transfer_failed 500 ''Internal server error'' None, [], st)
              | Some req \<Rightarrow>
                  (case transfer_amount req of
                     None \<Rightarrow> (transfer_failed 400 ''Invalid input parameters'' None, [], st)
                   | Some a \<Rightarrow>
                       if recipientEmail req = [] \<or> a \<le> 0 then
                         (transfer_failed 400 ''Invalid input parameters'' None, [], st)
                       else
                         (let fee = transactionFee (times_feePercentage env) a
                          in (case listed_users env of
                                None \<Rightarrow>
                                  (transfer_failed 500 ''Failed to find recipient'' None,
                                   [List_users], st)
                              | Some users \<Rightarrow>
                                  (case find (same_email (recipientEmail req)) users of
                                     None \<Rightarrow>
                                       (transfer_failed 404 ''Recipient not found'' None,
                                        [List_users], st)
                                   | Some matchingUser \<Rightarrow>
                                       if user_id sender = user_id matchingUser then
                                         (transfer_failed 400 ''Cannot send money to yourself'' None,
                                          [List_users], st)
                                       else if sender_select_error env then
                                         (transfer_failed 404 ''Sender wallet not found'' None,
                                          [List_users, Select_wallet (user_id sender)], st)
                                       else
                                         (case wallets st (user_id sender) of
                                            None \<Rightarrow>
                                              (transfer_failed 404 ''Sender wallet not found'' None,
                                               [List_users, Select_wallet (user_id sender)], st)
                                          | Some balance \<Rightarrow>
                                              if balance < a + fee then
                                                ((transfer_failed 400 ''Insufficient balance'' None)
                                                   \<lparr>transfer_success := Some False,
                                                    reported_balance := Some balance\<rparr>,
                                                 [List_users, Select_wallet (user_id sender)], st)
                                              else
                                                (let moved = move_funds env st sender matchingUser
                                                               (recipientEmail req) a fee balance
                                                 in (fst moved,
                                                     List_users # Select_wallet (user_id sender) #
                                                       fst (snd moved),
                                                     snd (snd moved)))))))))))"


subsection \<open>Reading a trace\<close>






section \<open>Scenarios\<close>

text \<open>Concrete operations, requests, ledgers and environments, used to run the model.\<close>

definition failing_operation :: "nat \<Rightarrow> string + nat" where
  "failing_operation i = Inl ''connection reset''"

definition flaky_operation :: "nat \<Rightarrow> string + nat" where
  "flaky_operation i = (if i < 2 then Inl ''connection reset'' else Inr 7)"

definition alice :: user where
  "alice = \<lparr>user_id = ''u-alice'', user_email = Some ''alice@example.com''\<rparr>"

definition bob :: user where
  "bob = \<lparr>user_id = ''u-bob'', user_email = Some ''Bob@Example.com''\<rparr>"

definition mpesa_1000 :: withdraw_request where
  "mpesa_1000 =
     \<lparr>amount = Some 1000, paymentMethod = ''mpesa'',
      destinationDetails = Some \<lparr>phone_number = units ''0712 345-678'', account_number = [],
                                 bank_name = [], account_name = []\<rparr>\<rparr>"



definition ledger_5000 :: store where
  "ledger_5000 = \<lparr>wallets = [''u-alice'' \<mapsto> 5000], transactions = []\<rparr>"


definition recipient_created :: "recipient_json http_response" where
  "recipient_created =
     \<lparr>http_status = 201,
      json = Some \<lparr>recipient_status = True,
                   recipient_message = Some ''Transfer recipient created successfully'',
                   recipient_error_code = None, recipient_data = Some ''RCP_1''\<rparr>\<rparr>"


text \<open>An environment in which the provider and the store accept everything.\<close>

definition healthy_env :: withdraw_env where
  "healthy_env =
     \<lparr>options_request = False,
      auth_user = Some alice,
      wallet_select_error = False,
      paystack_secret_key = Some ''sk_test'',
      balance_fetch = (\<lambda>i. Responded
        \<lparr>http_status = 200,
         json = Some \<lparr>balance_status = True, balance_data = Some [Some 100000000]\<rparr>\<rparr>),
      banks_fetch = (\<lambda>i. Responded
        \<lparr>http_status = 200,
         json = Some \<lparr>banks_status = True, banks_message = Some ''Banks retrieved'',
                      banks_data = [\<lparr>bank_name_of = ''Airtel Money'', bank_slug = ''airtel-money'',
                                      bank_code = ''ATL_KE''\<rparr>,
                                    \<lparr>bank_name_of = ''M-PESA'', bank_slug = ''m-pesa'',
                                      bank_code = ''MPESA''\<rparr>]\<rparr>\<rparr>),
      recipient_fetch = (\<lambda>phone i. Responded recipient_created),
      bank_recipient_fetch = (\<lambda>i. Responded recipient_created),
      transfer_fetch = (\<lambda>i. Responded
        \<lparr>http_status = 200,
         json = Some \<lparr>transfer_status = True, transfer_message = Some ''Transfer has been queued'',
                      transfer_code = None, transfer_reference = Some ''WD1u-alice''\<rparr>\<rparr>),
      wallet_update_error = False,
      transaction_insert_error = False\<rparr>"

text \<open>The balance query runs into its deadline on every invocation.\<close>

definition balance_timeout_env :: withdraw_env where
  "balance_timeout_env = healthy_env\<lparr>balance_fetch := (\<lambda>i. Aborted)\<rparr>"

text \<open>The balance query is refused at connection level on every invocation.\<close>

definition balance_down_env :: withdraw_env where
  "balance_down_env = healthy_env\<lparr>balance_fetch := (\<lambda>i. Threw ''connection refused'')\<rparr>"

text \<open>The balance query is answered with a gateway error on every invocation.\<close>

definition balance_502_env :: withdraw_env where
  "balance_502_env =
     healthy_env\<lparr>balance_fetch := (\<lambda>i. Responded \<lparr>http_status = 502, json = None\<rparr>)\<rparr>"

text \<open>
  The first invocation of the balance query times out; the second is answered with a body
  that is not JSON.
\<close>

definition balance_garbled_env :: withdraw_env where
  "balance_garbled_env =
     healthy_env\<lparr>balance_fetch :=
       (\<lambda>i. if i = 0 then Aborted else Responded \<lparr>http_status = 200, json = None\<rparr>)\<rparr>"


text \<open>The store refuses the debit of the wallet.\<close>

definition debit_failure_env :: withdraw_env where
  "debit_failure_env = healthy_env\<lparr>wallet_update_error := True\<rparr>"


definition send_200_to_bob :: transfer_request where
  "send_200_to_bob = \<lparr>recipientEmail = ''bob@example.com'', transfer_amount = Some 200\<rparr>"


definition send_100_to_self :: transfer_request where
  "send_100_to_self = \<lparr>recipientEmail = ''ALICE@example.com'', transfer_amount = Some 100\<rparr>"

definition ledger_1000 :: store where
  "ledger_1000 = \<lparr>wallets = [''u-alice'' \<mapsto> 1000, ''u-bob'' \<mapsto> 50], transactions = []\<rparr>"

definition ledger_500 :: store where
  "ledger_500 = \<lparr>wallets = [''u-alice'' \<mapsto> 500, ''u-bob'' \<mapsto> 50], transactions = []\<rparr>"

text \<open>
  The store accepts everything. The amounts of the scenarios are 100 and 200, whose
  products with 0.01 are 1 and 2 in double precision too.
\<close>

definition quiet_env :: transfer_env where
  "quiet_env =
     \<lparr>times_feePercentage = (\<lambda>a. a * (1 / 100)),
      preflight_request = False, caller = Some alice, listed_users = Some [alice, bob],
      sender_select_error = False, deduct_error = None, recipient_select_error = False,
      add_error = None, rollback_error = False, insert_error = False\<rparr>"

text \<open>The store refuses the credit of the recipient.\<close>

definition credit_failure_env :: transfer_env where
  "credit_failure_env = quiet_env\<lparr>add_error := Some ''connection lost''\<rparr>"

text \<open>The store refuses the credit of the recipient and then the rollback write.\<close>

definition store_down_env :: transfer_env where
  "store_down_env = credit_failure_env\<lparr>rollback_error := True\<rparr>"



section \<open>Properties of the retry loop\<close>

lemma retry_loop_done: "maxRetries \<le> i \<Longrightarrow> retry_loop fn maxRetries d i le = (Inl le, [])"
  by (simp add: retry_loop.simps)

lemma retry_loop_success:
  "k < maxRetries \<Longrightarrow> \<forall>j. i \<le> j \<and> j < k \<longrightarrow> isl (fn j) \<Longrightarrow> fn k = Inr v \<Longrightarrow> i \<le> k \<Longrightarrow>
   retry_loop fn maxRetries d i le = (Inr v, backoff_prefix d i (k - i) @ [Attempt k])"
proof (induction "k - i" arbitrary: i le)
  case 0
  then have "i = k" by simp
  with 0 show ?case by (simp add: retry_loop.simps)
next
  case (Suc n)
  then have lt: "i < k" and isl: "isl (fn i)" by auto
  from isl obtain e where e: "fn i = Inl e" by (cases "fn i") auto
  have step: "retry_loop fn maxRetries d (Suc i) (Some e) =
        (Inr v, backoff_prefix d (Suc i) (k - Suc i) @ [Attempt k])"
    using Suc by (intro Suc.hyps) auto
  have ks: "k - i = Suc (k - Suc i)" using lt by simp
  from lt Suc.prems(1) have "i < maxRetries - 1" "i < maxRetries" by auto
  then show ?case
    by (subst retry_loop.simps) (simp add: e step ks)
qed

lemma retry_loop_exhausted:
  "i < maxRetries \<Longrightarrow> \<forall>j. i \<le> j \<and> j < maxRetries \<longrightarrow> isl (fn j) \<Longrightarrow>
   retry_loop fn maxRetries d i le =
     (Inl (Some (projl (fn (maxRetries - 1)))),
      backoff_prefix d i (maxRetries - 1 - i) @ [Attempt (maxRetries - 1)])"
proof (induction "maxRetries - 1 - i" arbitrary: i le)
  case 0
  then have i: "i = maxRetries - 1" by simp
  from 0 have "isl (fn i)" by simp
  then obtain e where e: "fn i = Inl e" by (cases "fn i") auto
  have "retry_loop fn maxRetries d (Suc i) (Some e) = (Inl (Some e), [])"
    using 0 by (intro retry_loop_done) simp
  with 0 e i show ?case
    by (subst retry_loop.simps) simp
next
  case (Suc n)
  then have lt: "i < maxRetries - 1" and isl: "isl (fn i)" by auto
  from isl obtain e where e: "fn i = Inl e" by (cases "fn i") auto
  have step: "retry_loop fn maxRetries d (Suc i) (Some e) =
     (Inl (Some (projl (fn (maxRetries - 1)))),
      backoff_prefix d (Suc i) (maxRetries - 1 - Suc i) @ [Attempt (maxRetries - 1)])"
    using Suc lt by (intro Suc.hyps) auto
  have ks: "backoff_prefix d i (maxRetries - 1 - i) =
      Attempt i # Sleep (d * 2 ^ i) # backoff_prefix d (Suc i) (maxRetries - 1 - Suc i)"
  proof -
    have "maxRetries - 1 - i = Suc (maxRetries - 1 - Suc i)" using lt by simp
    then show ?thesis by (simp only: backoff_prefix.simps)
  qed
  have "retry_loop fn maxRetries d i le =
      (fst (retry_loop fn maxRetries d (Suc i) (Some e)),
       Attempt i # Sleep (d * 2 ^ i) # snd (retry_loop fn maxRetries d (Suc i) (Some e)))"
    using lt by (subst retry_loop.simps) (simp add: e Let_def)
  then show ?case
    unfolding step ks by simp
qed

lemma backoff_prefix_head:
  "\<exists>tr. backoff_prefix d i k @ [Attempt (i + k)] = Attempt i # tr"
  by (cases k) simp_all

lemma delay_before_prefix:
  "delay_before j (backoff_prefix d i k @ [Attempt (i + k)]) =
     (if i < j \<and> j \<le> i + k then Some (d * 2 ^ (j - 1)) else None)"
proof (induction k arbitrary: i)
  case 0
  show ?case by simp
next
  case (Suc k)
  obtain tr where tr: "backoff_prefix d (Suc i) k @ [Attempt (Suc i + k)] = Attempt (Suc i) # tr"
    using backoff_prefix_head by blast
  have ih: "delay_before j (Attempt (Suc i) # tr) =
     (if Suc i < j \<and> j \<le> Suc i + k then Some (d * 2 ^ (j - 1)) else None)"
    using Suc.IH [of "Suc i"] tr by simp
  have "backoff_prefix d i (Suc k) @ [Attempt (i + Suc k)] =
          Attempt i # Sleep (d * 2 ^ i) # Attempt (Suc i) # tr"
    using tr by simp
  then have "delay_before j (backoff_prefix d i (Suc k) @ [Attempt (i + Suc k)]) =
          (if Suc i = j then Some (d * 2 ^ i) else delay_before j (Attempt (Suc i) # tr))"
    by simp
  with ih show ?case by auto
qed

text \<open>
  C6, as amended. The loop invokes the operation at most \<open>maxRetries\<close> times and stops at
  the first invocation that succeeds, returning its value; when \<open>maxRetries\<close> is positive
  and every invocation fails, it throws the error of the last one. It sleeps
  \<open>initialDelay * 2 ^ i\<close> after the failure of invocation \<open>i\<close> when another invocation
  follows: the delay before invocation \<open>i + 1\<close> is \<open>initialDelay * 2 ^ i\<close>, and nothing
  precedes invocation \<open>0\<close>.
\<close>

theorem retryWithBackoff_contract:
  "(\<forall>k v. k < maxRetries \<and> (\<forall>j<k. isl (fn j)) \<and> fn k = Inr v \<longrightarrow>
      retryWithBackoff fn maxRetries initialDelay =
        (Inr v, backoff_prefix initialDelay 0 k @ [Attempt k])) \<and>
   (0 < maxRetries \<and> (\<forall>j<maxRetries. isl (fn j)) \<longrightarrow>
      retryWithBackoff fn maxRetries initialDelay =
        (Inl (Some (projl (fn (maxRetries - 1)))),
         backoff_prefix initialDelay 0 (maxRetries - 1) @ [Attempt (maxRetries - 1)])) \<and>
   (\<forall>i k. delay_before i (backoff_prefix initialDelay 0 k @ [Attempt k]) =
      (if 0 < i \<and> i \<le> k then Some (initialDelay * 2 ^ (i - 1)) else None))"
proof (intro conjI allI impI)
  fix k v
  assume "k < maxRetries \<and> (\<forall>j<k. isl (fn j)) \<and> fn k = Inr v"
  then show "retryWithBackoff fn maxRetries initialDelay =
        (Inr v, backoff_prefix initialDelay 0 k @ [Attempt k])"
    unfolding retryWithBackoff_def
    using retry_loop_success [of k maxRetries 0 fn v initialDelay None] by simp
next
  assume "0 < maxRetries \<and> (\<forall>j<maxRetries. isl (fn j))"
  then show "retryWithBackoff fn maxRetries initialDelay =
        (Inl (Some (projl (fn (maxRetries - 1)))),
         backoff_prefix initialDelay 0 (maxRetries - 1) @ [Attempt (maxRetries - 1)])"
    unfolding retryWithBackoff_def
    using retry_loop_exhausted [of 0 maxRetries fn initialDelay None] by simp
next
  fix i k
  show "delay_before i (backoff_prefix initialDelay 0 k @ [Attempt k]) =
      (if 0 < i \<and> i \<le> k then Some (initialDelay * 2 ^ (i - 1)) else None)"
    using delay_before_prefix [of i initialDelay 0 k] by simp
qed

theorem retryWithBackoff_contract_witness:
  "retryWithBackoff flaky_operation 3 1000 =
     (Inr 7, [Attempt 0, Sleep 1000, Attempt 1, Sleep 2000, Attempt 2]) \<and>
   retryWithBackoff failing_operation 3 1000 =
     (Inl (Some ''connection reset''), [Attempt 0, Sleep 1000, Attempt 1, Sleep 2000, Attempt 2])"
proof -
  have "(2::nat) < 3 \<and> (\<forall>j<2. isl (flaky_operation j)) \<and> flaky_operation 2 = Inr 7"
    by (simp add: flaky_operation_def)
  with retryWithBackoff_contract [of 3 flaky_operation 1000]
  have flaky: "retryWithBackoff flaky_operation 3 1000 =
      (Inr 7, backoff_prefix 1000 0 2 @ [Attempt 2])"
    by blast
  have "(0::nat) < 3 \<and> (\<forall>j<3. isl (failing_operation j))"
    by (simp add: failing_operation_def)
  with retryWithBackoff_contract [of 3 failing_operation 1000]
  have failing: "retryWithBackoff failing_operation 3 1000 =
      (Inl (Some (projl (failing_operation (3 - 1)))),
       backoff_prefix 1000 0 (3 - 1) @ [Attempt (3 - 1)])"
    by blast
  have two: "backoff_prefix 1000 0 2 = [Attempt 0, Sleep 1000, Attempt 1, Sleep 2000]"
    by (simp add: numeral_2_eq_2)
  show ?thesis
    using flaky failing two by (simp add: failing_operation_def)
qed

text \<open>
  C6 as the specification words it, "the delay before attempt \<open>i\<close> (0-indexed) is
  \<open>initialDelay * 2 ^ i\<close>", fails: with three failing invocations and an initial delay of
  1000 nothing precedes invocation 0 and 1000, not 2000, precedes invocation 1.
\<close>

theorem retry_delay_counterexample:
  "delay_before 0 (snd (retryWithBackoff failing_operation 3 1000)) \<noteq> Some (1000 * 2 ^ 0) \<and>
   delay_before 1 (snd (retryWithBackoff failing_operation 3 1000)) \<noteq> Some (1000 * 2 ^ 1)"
  by (simp add: retryWithBackoff_def retry_loop.simps failing_operation_def)


section \<open>Properties of the fee schedule\<close>

lemma pct_floor_mono:
  fixes a b c :: rat
  assumes "a \<le> b" "0 \<le> c"
  shows "(of_int \<lfloor>a * c\<rfloor> :: rat) \<le> of_int \<lfloor>b * c\<rfloor>"
proof -
  have "a * c \<le> b * c" using assms by (rule mult_right_mono)
  then have "\<lfloor>a * c\<rfloor> \<le> \<lfloor>b * c\<rfloor>" by (rule floor_mono)
  then show ?thesis by simp
qed

lemma calculateFee_nonneg: "0 \<le> calculateFee amt method"
  by (auto simp: calculateFee_def le_max_iff_disj)

lemma calculateFee_mono:
  assumes "a \<le> b"
  shows "calculateFee a method \<le> calculateFee b method"
proof -
  have p5: "(of_int \<lfloor>a * (5 / 1000)\<rfloor> :: rat) \<le> of_int \<lfloor>b * (5 / 1000)\<rfloor>"
    using assms by (intro pct_floor_mono) simp_all
  have p1: "(of_int \<lfloor>a * (1 / 1000)\<rfloor> :: rat) \<le> of_int \<lfloor>b * (1 / 1000)\<rfloor>"
    using assms by (intro pct_floor_mono) simp_all
  show ?thesis
    using assms p5 p1 unfolding calculateFee_def
    by (auto simp: max_def)
qed

text \<open>
  C8. For every positive amount and each of the three channels the fee is not negative,
  and the fee never decreases when the amount grows: over the whole schedule of a channel,
  so in particular within each of its tiers.
\<close>

theorem calculateFee_nonneg_monotone:
  "0 < a \<Longrightarrow> method = ''mpesa'' \<or> method = ''airtel'' \<or> method = ''bank'' \<Longrightarrow>
   0 \<le> calculateFee a method \<and> (\<forall>b. a \<le> b \<longrightarrow> calculateFee a method \<le> calculateFee b method)"
  using calculateFee_nonneg calculateFee_mono by blast

theorem calculateFee_nonneg_monotone_witness:
  "0 \<le> calculateFee 3000 ''mpesa'' \<and> calculateFee 3000 ''mpesa'' \<le> calculateFee 3400 ''mpesa'' \<and>
   calculateFee 3000 ''mpesa'' \<le> calculateFee 12000 ''mpesa''"
proof -
  have "(0::rat) < 3000" and "''mpesa'' = ''mpesa'' \<or> ''mpesa'' = ''airtel'' \<or> ''mpesa'' = ''bank''"
    by simp_all
  from calculateFee_nonneg_monotone [OF this]
  show ?thesis by simp
qed


section \<open>Properties of the wallet-to-wallet transfer\<close>


lemma update_balance_restore:
  assumes "wallets st uid = Some balance"
  shows "update_balance (update_balance st uid b) uid balance = st"
proof -
  have "(wallets st)(uid \<mapsto> balance) = wallets st"
    using assms by (rule map_upd_triv)
  then show ?thesis
    using assms by (simp add: update_balance_def)
qed

lemma wallet_transfer_reaches_move_funds:
  assumes "\<not> preflight_request env" "caller env = Some sender"
    "transfer_amount req = Some a" "0 < a" "recipientEmail req \<noteq> []"
    "listed_users env = Some users"
    "find (same_email (recipientEmail req)) users = Some matchingUser"
    "user_id sender \<noteq> user_id matchingUser"
    "\<not> sender_select_error env" "wallets st (user_id sender) = Some balance"
    "a + transactionFee (times_feePercentage env) a \<le> balance"
  shows "wallet_transfer env (Some req) st =
     (fst (move_funds env st sender matchingUser (recipientEmail req) a
             (transactionFee (times_feePercentage env) a) balance),
      List_users # Select_wallet (user_id sender) #
        fst (snd (move_funds env st sender matchingUser (recipientEmail req) a
                    (transactionFee (times_feePercentage env) a) balance)),
      snd (snd (move_funds env st sender matchingUser (recipientEmail req) a
                  (transactionFee (times_feePercentage env) a) balance)))"
  using assms by (simp add: wallet_transfer_def Let_def)



lemma move_funds_rollback:
  assumes "deduct_error env = None" "add_error env = Some m" "\<not> rollback_error env"
    "wallets st (user_id sender) = Some balance"
  shows "fst (move_funds env st sender matchingUser email a fee balance) =
           transfer_failed 500 ''Failed to credit recipient'' (Some m)"
    and "snd (snd (move_funds env st sender matchingUser email a fee balance)) = st"
    and "last (fst (snd (move_funds env st sender matchingUser email a fee balance))) =
           Update_wallet (user_id sender) balance"
    and "fst (snd (move_funds env st sender matchingUser email a fee balance)) ! 0 =
           Update_wallet (user_id sender) (balance - (a + fee))"
  using assms by (simp_all add: move_funds_def Let_def update_balance_restore)

text \<open>
  C10. A transfer whose recipient address resolves, by case-insensitive match of the
  e-mail address, to the caller's own account is answered with HTTP 400 and
  "Cannot send money to yourself". All the handler has done by then is list the users:
  it has read and written no wallet and recorded no transaction, and the ledger is as it
  was.
\<close>

theorem self_transfer_rejected:
  assumes "\<not> preflight_request env" and "caller env = Some sender"
    and "transfer_amount req = Some a" and "0 < a" and "recipientEmail req \<noteq> []"
    and "listed_users env = Some users"
    and "find (same_email (recipientEmail req)) users = Some matchingUser"
    and "user_id matchingUser = user_id sender"
  shows "wallet_transfer env (Some req) st =
           (transfer_failed 400 ''Cannot send money to yourself'' None, [List_users], st) \<and>
         filter ledger_access (fst (snd (wallet_transfer env (Some req) st))) = []"
  using assms by (simp add: wallet_transfer_def Let_def)

text \<open>
  Alice sends 100 to \<open>ALICE@example.com\<close>.
\<close>

theorem self_transfer_rejected_witness:
  "wallet_transfer quiet_env (Some send_100_to_self) ledger_500 =
     (transfer_failed 400 ''Cannot send money to yourself'' None, [List_users], ledger_500) \<and>
   filter ledger_access (fst (snd (wallet_transfer quiet_env (Some send_100_to_self) ledger_500))) = []"
proof (rule self_transfer_rejected [where sender = alice and users = "[alice, bob]" and matchingUser = alice and a = 100])
  show "\<not> preflight_request quiet_env" by (simp add: quiet_env_def)
  show "caller quiet_env = Some alice" by (simp add: quiet_env_def)
  show "transfer_amount send_100_to_self = Some 100" by (simp add: send_100_to_self_def)
  show "(0::rat) < 100" by simp
  show "recipientEmail send_100_to_self \<noteq> []" by (simp add: send_100_to_self_def)
  show "listed_users quiet_env = Some [alice, bob]" by (simp add: quiet_env_def)
  show "find (same_email (recipientEmail send_100_to_self)) [alice, bob] = Some alice"
    by code_simp
  show "user_id alice = user_id alice" by simp
qed

text \<open>
  When the store accepts the compensating write, the credit having been refused, the
  ledger is as it was before the debit.
\<close>

lemma rollback_accepted_restores_ledger:
  assumes "\<not> preflight_request env" and "caller env = Some sender"
    and "transfer_amount req = Some a" and "0 < a" and "recipientEmail req \<noteq> []"
    and "listed_users env = Some users"
    and "find (same_email (recipientEmail req)) users = Some matchingUser"
    and "user_id sender \<noteq> user_id matchingUser"
    and "\<not> sender_select_error env" and "wallets st (user_id sender) = Some balance"
    and "a + transactionFee (times_feePercentage env) a \<le> balance"
    and "deduct_error env = None" and "add_error env = Some m" and "\<not> rollback_error env"
  shows "fst (wallet_transfer env (Some req) st) =
           transfer_failed 500 ''Failed to credit recipient'' (Some m) \<and>
         last (fst (snd (wallet_transfer env (Some req) st))) =
           Update_wallet (user_id sender) balance \<and>
         snd (snd (wallet_transfer env (Some req) st)) = st"
proof -
  let ?M = "move_funds env st sender matchingUser (recipientEmail req) a
              (transactionFee (times_feePercentage env) a) balance"
  have reach: "wallet_transfer env (Some req) st =
      (fst ?M, List_users # Select_wallet (user_id sender) # fst (snd ?M), snd (snd ?M))"
    using assms(1-11) by (rule wallet_transfer_reaches_move_funds)
  note rb = move_funds_rollback [OF assms(12) assms(13) assms(14) assms(10),
      where matchingUser = matchingUser and email = "recipientEmail req" and a = a
        and fee = "transactionFee (times_feePercentage env) a"]
  have ne: "fst (snd ?M) \<noteq> []"
    using assms(12,13) by (simp add: move_funds_def Let_def)
  show ?thesis
    unfolding reach using rb ne by simp
qed

text \<open>
  C4. The handler attempts the restoration and does not look at its result. Sender
  balance 1000, amount 200, fee 10: the store accepts the debit to 790, refuses the credit
  and refuses the compensating write. The write of 1000 is the last ledger operation the
  handler issues, the handler answers HTTP 500 "Failed to credit recipient", and the
  sender's balance is 790, not the 1000 of before the debit.
\<close>

theorem failed_rollback_leaves_sender_debited:
  "wallets ledger_1000 ''u-alice'' = Some 1000 \<and>
   fst (wallet_transfer store_down_env (Some send_200_to_bob) ledger_1000) =
     transfer_failed 500 ''Failed to credit recipient'' (Some ''connection lost'') \<and>
   fst (snd (wallet_transfer store_down_env (Some send_200_to_bob) ledger_1000)) =
     [List_users, Select_wallet ''u-alice'', Update_wallet ''u-alice'' 790,
      Select_wallet ''u-bob'', Update_wallet ''u-bob'' 250, Update_wallet ''u-alice'' 1000] \<and>
   wallets (snd (snd (wallet_transfer store_down_env (Some send_200_to_bob) ledger_1000)))
     ''u-alice'' = Some 790"
  by code_simp





section \<open>Properties of the withdrawal handler\<close>

















lemma createRecipientWithPhone_trace:
  "snd (createRecipientWithPhone fetch phone) =
     [Create_recipient phone (snd (retryWithBackoff (\<lambda>i. fetchWithTimeout (fetch phone i)) 3 1000))]"
  by (simp add: createRecipientWithPhone_def Let_def)


lemma resolve_mobile_recipient_trace:
  "snd (resolve_mobile_recipient fetch number) =
     (if rejected_as_invalid (fst (createRecipientWithPhone fetch (intl_phone number)))
      then snd (createRecipientWithPhone fetch (intl_phone number)) @
           snd (createRecipientWithPhone fetch (local_phone number))
      else snd (createRecipientWithPhone fetch (intl_phone number)))"
  by (simp add: resolve_mobile_recipient_def Let_def)

lemma failure_not_success [simp]: "success (failure st msg cd) = Some False"
  "success (error_only st' m) = None" "success internal_error = Some False" "success preflight = None"
  by (simp_all add: failure_def error_only_def internal_error_def preflight_def)

lemma validate_request_failure: "validate_request req = Inl r \<Longrightarrow> success r \<noteq> Some True"
  by (auto simp: validate_request_def split: option.splits if_splits)

lemma read_wallet_failure: "read_wallet e st u a = Inl r \<Longrightarrow> success r \<noteq> Some True"
  by (auto simp: read_wallet_def split: option.splits if_splits)

lemma check_paystack_balance_failure:
  "fst (check_paystack_balance fetch net) = Some r \<Longrightarrow> success r \<noteq> Some True"
  by (auto simp: check_paystack_balance_def Let_def split: sum.splits option.splits if_splits list.splits)

lemma fetch_banks_failure: "fst (fetch_banks fetch) = Inl r \<Longrightarrow> success r \<noteq> Some True"
  by (auto simp: fetch_banks_def Let_def split: sum.splits option.splits if_splits)

lemma resolve_mobile_recipient_failure:
  "fst (resolve_mobile_recipient fetch number) = Inl r \<Longrightarrow> success r \<noteq> Some True"
  by (auto simp: resolve_mobile_recipient_def Let_def split: sum.splits option.splits if_splits)

lemma create_bank_recipient_failure:
  "fst (create_bank_recipient fetch) = Inl r \<Longrightarrow> success r \<noteq> Some True"
  by (auto simp: create_bank_recipient_def Let_def split: sum.splits option.splits if_splits)

lemma resolve_recipient_failure:
  "fst (resolve_recipient env m d) = Inl r \<Longrightarrow> success r \<noteq> Some True"
  by (auto simp: resolve_recipient_def resolve_mobile_def Let_def
        dest: fetch_banks_failure resolve_mobile_recipient_failure create_bank_recipient_failure
        split: sum.splits option.splits if_splits)

lemma initiate_transfer_failure:
  "fst (initiate_transfer fetch net rc) = Inl r \<Longrightarrow> success r \<noteq> Some True"
  by (auto simp: initiate_transfer_def Let_def split: sum.splits option.splits if_splits)

lemma initiate_transfer_trace:
  "snd (initiate_transfer fetch net rc) =
     [Post_transfer (math_round (net * 100)) rc
        (snd (retryWithBackoff (\<lambda>i. fetchWithTimeout (fetch i)) 3 1000))]"
  by (simp add: initiate_transfer_def Let_def)

lemma check_paystack_balance_trace:
  "snd (check_paystack_balance fetch net) =
     [Get_balance (snd (retryWithBackoff (\<lambda>i. fetchWithTimeout (fetch i)) 3 1000))]"
  by (simp add: check_paystack_balance_def Let_def)

lemma withdraw_funds_after_checks:
  assumes "\<not> options_request env" "auth_user env = Some u"
    "validate_request req = Inr (a, d)"
    "read_wallet (wallet_select_error env) st u a = Inr balance"
    "or_default (paystack_secret_key env) [] \<noteq> []"
  shows "withdraw_funds env (Some req) st =
     (case check_net_amount a (paymentMethod req) of
        Inl r \<Rightarrow> (r, [Select_wallet (user_id u)], st)
      | Inr (fee, netAmount) \<Rightarrow>
          (case fst (check_paystack_balance (balance_fetch env) netAmount) of
             Some r \<Rightarrow>
               (r, Select_wallet (user_id u) #
                     snd (check_paystack_balance (balance_fetch env) netAmount), st)
           | None \<Rightarrow>
               (fst (payout env st u a (paymentMethod req) d balance fee),
                Select_wallet (user_id u) #
                  snd (check_paystack_balance (balance_fetch env) netAmount) @
                  fst (snd (payout env st u a (paymentMethod req) d balance fee)),
                snd (snd (payout env st u a (paymentMethod req) d balance fee)))))"
  using assms by (simp add: withdraw_funds_def Let_def split: sum.splits prod.splits option.splits)

lemma check_net_amount_cases:
  "check_net_amount a m =
     (if a \<le> calculateFee a m
      then Inl ((failure 400 (Amount_too_low_message (calculateFee a m + 1)) (Some ''amount_too_low''))
                  \<lparr>response_fee := Some (calculateFee a m)\<rparr>)
      else Inr (calculateFee a m, a - calculateFee a m))"
  by (simp add: check_net_amount_def Let_def)

lemma provider_call_check [simp]:
  "filter provider_call (snd (check_paystack_balance fetch net)) \<noteq> []"
  by (simp add: check_paystack_balance_trace)




lemma retry_three_result:
  "fst (retryWithBackoff f 3 d) =
     (case f 0 of
        Inr v \<Rightarrow> Inr v
      | Inl e0 \<Rightarrow>
          (case f 1 of
             Inr v \<Rightarrow> Inr v
           | Inl e1 \<Rightarrow> (case f 2 of Inr v \<Rightarrow> Inr v | Inl e2 \<Rightarrow> Inl (Some e2))))"
proof -
  have r3: "retry_loop f 3 d (Suc (Suc (Suc 0))) le = (Inl le, [])" for le
    by (simp add: retry_loop.simps)
  have r2: "fst (retry_loop f 3 d (Suc (Suc 0)) le) =
      (case f (Suc (Suc 0)) of Inr v \<Rightarrow> Inr v | Inl e2 \<Rightarrow> Inl (Some e2))" for le
    by (subst retry_loop.simps) (simp add: r3 Let_def split: sum.splits)
  have r1: "fst (retry_loop f 3 d (Suc 0) le) =
      (case f (Suc 0) of Inr v \<Rightarrow> Inr v
       | Inl e1 \<Rightarrow> (case f (Suc (Suc 0)) of Inr v \<Rightarrow> Inr v | Inl e2 \<Rightarrow> Inl (Some e2)))" for le
    by (subst retry_loop.simps) (simp add: r2 Let_def split: sum.splits)
  have "fst (retry_loop f 3 d 0 None) =
      (case f 0 of Inr v \<Rightarrow> Inr v
       | Inl e0 \<Rightarrow>
           (case f (Suc 0) of Inr v \<Rightarrow> Inr v
            | Inl e1 \<Rightarrow> (case f (Suc (Suc 0)) of Inr v \<Rightarrow> Inr v | Inl e2 \<Rightarrow> Inl (Some e2))))"
    by (subst retry_loop.simps) (simp add: r1 Let_def split: sum.splits)
  then show ?thesis
    by (simp add: retryWithBackoff_def numeral_2_eq_2 split: sum.splits)
qed

text \<open>
  C1, as amended. For a request that has reached the provider-side balance pre-check:
  when the retry loop of the balance query ends with an error other than
  \<open>network_timeout\<close>, with an answer whose status is not 2xx, with a body that is not
  JSON, or with a body that lacks \<open>status\<close> or \<open>data\<close>, the handler goes on with
  recipient resolution and answers what the rest of the pipeline answers; only when the
  loop ends with \<open>network_timeout\<close> does the handler answer HTTP 503 with code
  \<open>network_error\<close>, make no further call and leave the ledger alone. The loop ends with
  the first answer among its three invocations, and with the error of the third when all
  three fail.
\<close>

theorem balance_precheck_failure:
  assumes "\<not> options_request env" and "auth_user env = Some u"
    and "validate_request req = Inr (a, d)"
    and "read_wallet (wallet_select_error env) st u a = Inr balance"
    and "or_default (paystack_secret_key env) [] \<noteq> []"
    and "calculateFee a (paymentMethod req) < a"
  shows "(\<forall>e. fst (retryWithBackoff (\<lambda>i. fetchWithTimeout (balance_fetch env i)) 3 1000) = Inl e \<and>
              error_message e ''unknown'' \<noteq> ''network_timeout'' \<longrightarrow>
            withdraw_funds env (Some req) st =
              (fst (payout env st u a (paymentMethod req) d balance (calculateFee a (paymentMethod req))),
               Select_wallet (user_id u) #
                 Get_balance (snd (retryWithBackoff (\<lambda>i. fetchWithTimeout (balance_fetch env i)) 3 1000)) #
                 fst (snd (payout env st u a (paymentMethod req) d balance
                             (calculateFee a (paymentMethod req)))),
               snd (snd (payout env st u a (paymentMethod req) d balance
                           (calculateFee a (paymentMethod req)))))) \<and>
         (\<forall>resp. fst (retryWithBackoff (\<lambda>i. fetchWithTimeout (balance_fetch env i)) 3 1000) = Inr resp \<and>
              (\<not> ok resp \<or> json resp = None \<or>
               (\<exists>body. json resp = Some body \<and>
                  (\<not> balance_status body \<or> balance_data body = None))) \<longrightarrow>
            withdraw_funds env (Some req) st =
              (fst (payout env st u a (paymentMethod req) d balance (calculateFee a (paymentMethod req))),
               Select_wallet (user_id u) #
                 Get_balance (snd (retryWithBackoff (\<lambda>i. fetchWithTimeout (balance_fetch env i)) 3 1000)) #
                 fst (snd (payout env st u a (paymentMethod req) d balance
                             (calculateFee a (paymentMethod req)))),
               snd (snd (payout env st u a (paymentMethod req) d balance
                           (calculateFee a (paymentMethod req)))))) \<and>
         (\<forall>e. fst (retryWithBackoff (\<lambda>i. fetchWithTimeout (balance_fetch env i)) 3 1000) = Inl e \<and>
              error_message e ''unknown'' = ''network_timeout'' \<longrightarrow>
            withdraw_funds env (Some req) st =
              (failure 503 (Text ''Network timeout. Please check your connection and try again.'')
                 (Some ''network_error''),
               [Select_wallet (user_id u),
                Get_balance (snd (retryWithBackoff (\<lambda>i. fetchWithTimeout (balance_fetch env i)) 3 1000))],
               st)) \<and>
         fst (retryWithBackoff (\<lambda>i. fetchWithTimeout (balance_fetch env i)) 3 1000) =
           (case fetchWithTimeout (balance_fetch env 0) of
              Inr v \<Rightarrow> Inr v
            | Inl e0 \<Rightarrow>
                (case fetchWithTimeout (balance_fetch env 1) of
                   Inr v \<Rightarrow> Inr v
                 | Inl e1 \<Rightarrow>
                     (case fetchWithTimeout (balance_fetch env 2) of
                        Inr v \<Rightarrow> Inr v
                      | Inl e2 \<Rightarrow> Inl (Some e2))))"
proof -
  let ?R = "retryWithBackoff (\<lambda>i. fetchWithTimeout (balance_fetch env i)) 3 1000"
  let ?net = "a - calculateFee a (paymentMethod req)"
  let ?P = "payout env st u a (paymentMethod req) d balance (calculateFee a (paymentMethod req))"
  have W: "withdraw_funds env (Some req) st =
      (case fst (check_paystack_balance (balance_fetch env) ?net) of
         Some r \<Rightarrow> (r, [Select_wallet (user_id u), Get_balance (snd ?R)], st)
       | None \<Rightarrow> (fst ?P, Select_wallet (user_id u) # Get_balance (snd ?R) # fst (snd ?P),
                   snd (snd ?P)))"
    using assms(6)
    by (simp add: withdraw_funds_after_checks [OF assms(1-5)] check_net_amount_cases
          check_paystack_balance_trace split: option.splits)
  have other: "fst (check_paystack_balance (balance_fetch env) ?net) = None"
    if "fst ?R = Inl e" "error_message e ''unknown'' \<noteq> ''network_timeout''" for e
    using that by (simp add: check_paystack_balance_def Let_def)
  have answer: "fst (check_paystack_balance (balance_fetch env) ?net) = None"
    if "fst ?R = Inr resp"
      "\<not> ok resp \<or> json resp = None \<or>
       (\<exists>body. json resp = Some body \<and> (\<not> balance_status body \<or> balance_data body = None))"
    for resp
    using that by (auto simp: check_paystack_balance_def Let_def split: option.splits)
  have timeout: "fst (check_paystack_balance (balance_fetch env) ?net) =
      Some (failure 503 (Text ''Network timeout. Please check your connection and try again.'')
              (Some ''network_error''))"
    if "fst ?R = Inl e" "error_message e ''unknown'' = ''network_timeout''" for e
    using that by (simp add: check_paystack_balance_def Let_def)
  show ?thesis
    using other answer timeout retry_three_result [of "\<lambda>i. fetchWithTimeout (balance_fetch env i)" 1000]
    by (simp add: W)
qed

lemma transfer_call_resolve_recipient:
  "filter transfer_call (snd (resolve_recipient env m d)) = []"
  by (simp add: resolve_recipient_def resolve_mobile_def fetch_banks_def create_bank_recipient_def
        resolve_mobile_recipient_trace createRecipientWithPhone_trace Let_def
        split: sum.splits option.splits)

lemma withdraw_funds_reaches_reconcile:
  assumes "\<not> options_request env" and "auth_user env = Some u"
    and "validate_request req = Inr (a, d)"
    and "read_wallet (wallet_select_error env) st u a = Inr balance"
    and "or_default (paystack_secret_key env) [] \<noteq> []"
    and "calculateFee a (paymentMethod req) < a"
    and "fst (check_paystack_balance (balance_fetch env) (a - calculateFee a (paymentMethod req))) = None"
    and "fst (resolve_recipient env (paymentMethod req) d) = Inr rc"
    and "fst (initiate_transfer (transfer_fetch env) (a - calculateFee a (paymentMethod req)) rc) =
           Inr transferData"
  shows "withdraw_funds env (Some req) st =
     (fst (reconcile_ledger env st u a (paymentMethod req) d balance
             (calculateFee a (paymentMethod req)) transferData),
      Select_wallet (user_id u) #
        snd (check_paystack_balance (balance_fetch env) (a - calculateFee a (paymentMethod req))) @
        snd (resolve_recipient env (paymentMethod req) d) @
        snd (initiate_transfer (transfer_fetch env) (a - calculateFee a (paymentMethod req)) rc) @
        fst (snd (reconcile_ledger env st u a (paymentMethod req) d balance
                    (calculateFee a (paymentMethod req)) transferData)),
      snd (snd (reconcile_ledger env st u a (paymentMethod req) d balance
                  (calculateFee a (paymentMethod req)) transferData)))"
  using assms(6-9)
  by (simp add: withdraw_funds_after_checks [OF assms(1-5)] check_net_amount_cases
        payout_def settle_def Let_def)

text \<open>
  C2, as amended. When the provider has accepted the transfer and the store then refuses
  the debit of the wallet, the handler answers HTTP 500 "Failed to update wallet" with no
  code, leaves the ledger as it was (no debit, no transaction record), and the trace
  holds one transfer call, followed only by the refused debit: the transfer is not made
  again.
\<close>

theorem debit_failure_after_transfer:
  assumes "\<not> options_request env" and "auth_user env = Some u"
    and "validate_request req = Inr (a, d)"
    and "read_wallet (wallet_select_error env) st u a = Inr balance"
    and "or_default (paystack_secret_key env) [] \<noteq> []"
    and "calculateFee a (paymentMethod req) < a"
    and "fst (check_paystack_balance (balance_fetch env) (a - calculateFee a (paymentMethod req))) = None"
    and "fst (resolve_recipient env (paymentMethod req) d) = Inr rc"
    and "fst (initiate_transfer (transfer_fetch env) (a - calculateFee a (paymentMethod req)) rc) =
           Inr transferData"
    and "wallet_update_error env"
  shows "fst (withdraw_funds env (Some req) st) = failure 500 (Text ''Failed to update wallet'') None \<and>
         code (fst (withdraw_funds env (Some req) st)) = None \<and>
         snd (snd (withdraw_funds env (Some req) st)) = st \<and>
         length (filter transfer_call (fst (snd (withdraw_funds env (Some req) st)))) = 1 \<and>
         last (fst (snd (withdraw_funds env (Some req) st))) = Update_wallet (user_id u) (balance - a)"
  using assms(10)
  by (simp add: withdraw_funds_reaches_reconcile [OF assms(1-9)] reconcile_ledger_def
        check_paystack_balance_trace transfer_call_resolve_recipient initiate_transfer_trace
        failure_def)

lemma withdraw_funds_success:
  assumes ok: "success (fst (withdraw_funds env body st)) = Some True"
  obtains u req a d balance rc transferData where
    "\<not> options_request env" "auth_user env = Some u" "body = Some req"
    "validate_request req = Inr (a, d)"
    "read_wallet (wallet_select_error env) st u a = Inr balance"
    "or_default (paystack_secret_key env) [] \<noteq> []"
    "calculateFee a (paymentMethod req) < a"
    "fst (check_paystack_balance (balance_fetch env) (a - calculateFee a (paymentMethod req))) = None"
    "fst (resolve_recipient env (paymentMethod req) d) = Inr rc"
    "fst (initiate_transfer (transfer_fetch env) (a - calculateFee a (paymentMethod req)) rc) =
       Inr transferData"
    "\<not> wallet_update_error env"
proof -
  have 1: "\<not> options_request env"
    using ok by (auto simp: withdraw_funds_def)
  obtain u where 2: "auth_user env = Some u"
    using ok 1 by (cases "auth_user env") (auto simp: withdraw_funds_def)
  obtain req where 3: "body = Some req"
    using ok 1 2 by (cases body) (auto simp: withdraw_funds_def)
  obtain a d where 4: "validate_request req = Inr (a, d)"
    using ok 1 2 3 validate_request_failure [of req]
    by (cases "validate_request req") (auto simp: withdraw_funds_def)
  obtain balance where 5: "read_wallet (wallet_select_error env) st u a = Inr balance"
    using ok 1 2 3 4 read_wallet_failure [of "wallet_select_error env" st u a]
    by (cases "read_wallet (wallet_select_error env) st u a") (auto simp: withdraw_funds_def)
  have 6: "or_default (paystack_secret_key env) [] \<noteq> []"
    using ok 1 2 3 4 5 by (auto simp: withdraw_funds_def)
  note after = withdraw_funds_after_checks [OF 1 2 4 5 6]
  let ?fee = "calculateFee a (paymentMethod req)"
  have 7: "?fee < a"
    using ok 3 by (auto simp: after check_net_amount_cases failure_def split: if_splits)
  have 8: "fst (check_paystack_balance (balance_fetch env) (a - ?fee)) = None"
    using ok 3 7 check_paystack_balance_failure [of "balance_fetch env" "a - ?fee"]
    by (cases "fst (check_paystack_balance (balance_fetch env) (a - ?fee))")
       (auto simp: after check_net_amount_cases)
  have paid: "success (fst (payout env st u a (paymentMethod req) d balance ?fee)) = Some True"
    using ok 3 7 8 by (simp add: after check_net_amount_cases)
  obtain rc where 9: "fst (resolve_recipient env (paymentMethod req) d) = Inr rc"
    using paid resolve_recipient_failure [of env "paymentMethod req" d]
    by (cases "fst (resolve_recipient env (paymentMethod req) d)") (auto simp: payout_def Let_def)
  have settled: "success (fst (settle env st u a (paymentMethod req) d balance ?fee rc)) = Some True"
    using paid 9 by (simp add: payout_def Let_def)
  obtain transferData where
    10: "fst (initiate_transfer (transfer_fetch env) (a - ?fee) rc) = Inr transferData"
    using settled initiate_transfer_failure [of "transfer_fetch env" "a - ?fee" rc]
    by (cases "fst (initiate_transfer (transfer_fetch env) (a - ?fee) rc)")
       (auto simp: settle_def Let_def)
  have 11: "\<not> wallet_update_error env"
    using settled 10 by (auto simp: settle_def Let_def reconcile_ledger_def split: if_splits)
  show thesis
    using that [OF 1 2 3 4 5 6 7 8 9 10 11] .
qed

lemma validate_request_accepts:
  "validate_request req = Inr (a, d) \<Longrightarrow> amount req = Some a \<and> destinationDetails req = Some d \<and> 0 < a"
  by (auto simp: validate_request_def split: option.splits if_splits)

lemma read_wallet_accepts:
  "read_wallet e st u a = Inr balance \<Longrightarrow> wallets st (user_id u) = Some balance \<and> a \<le> balance"
  by (auto simp: read_wallet_def split: option.splits if_splits)

lemma math_round_98500: "math_round ((1000 - 15) * 100) = 98500"
  by (simp add: math_round_def floor_eq_iff)

text \<open>
  C3, as amended. For a withdrawal of 1000 on \<open>mpesa\<close> the fee is 15 and the net amount
  985. When the handler answers success and the store accepts the insert of the record:
  the one transfer call carries 98500 minor units, the net amount; the caller's balance
  is lowered by exactly 1000 and no other wallet changes; and one record is appended,
  with amount \<open>- 1000\<close>, fee 15 and net amount 985 in its metadata.
\<close>

theorem mpesa_withdrawal_of_1000:
  assumes "amount req = Some 1000" and "paymentMethod req = ''mpesa''"
    and "auth_user env = Some u"
    and "success (fst (withdraw_funds env (Some req) st)) = Some True"
    and "\<not> transaction_insert_error env"
  shows "calculateFee 1000 ''mpesa'' = 15 \<and>
     (\<exists>balance d rc tr transferData.
        wallets st (user_id u) = Some balance \<and> destinationDetails req = Some d \<and>
        filter transfer_call (fst (snd (withdraw_funds env (Some req) st))) =
          [Post_transfer 98500 rc tr] \<and>
        wallets (snd (snd (withdraw_funds env (Some req) st))) =
          (wallets st)(user_id u \<mapsto> balance - 1000) \<and>
        transactions (snd (snd (withdraw_funds env (Some req) st))) =
          transactions st @ [withdrawal_record u 1000 ''mpesa'' d 15 transferData] \<and>
        tx_amount (withdrawal_record u 1000 ''mpesa'' d 15 transferData) = - 1000 \<and>
        tx_metadata (withdrawal_record u 1000 ''mpesa'' d 15 transferData) =
          Some \<lparr>payment_method = ''mpesa'', metadata_destination = d, metadata_fee = 15,
                metadata_net_amount = 985\<rparr>)"
proof -
  have fee: "calculateFee 1000 ''mpesa'' = 15"
    by (simp add: calculateFee_def)
  from assms(4) obtain u' req' a d balance rc transferData where
    s: "\<not> options_request env" "auth_user env = Some u'" "Some req = Some req'"
      "validate_request req' = Inr (a, d)"
      "read_wallet (wallet_select_error env) st u' a = Inr balance"
      "or_default (paystack_secret_key env) [] \<noteq> []"
      "calculateFee a (paymentMethod req') < a"
      "fst (check_paystack_balance (balance_fetch env) (a - calculateFee a (paymentMethod req'))) = None"
      "fst (resolve_recipient env (paymentMethod req') d) = Inr rc"
      "fst (initiate_transfer (transfer_fetch env) (a - calculateFee a (paymentMethod req')) rc) =
         Inr transferData"
      "\<not> wallet_update_error env"
    by (rule withdraw_funds_success)
  from s(3) have req: "req' = req" by simp
  from s(2) assms(3) have u: "u' = u" by simp
  from validate_request_accepts [OF s(4)] assms(1) req
  have a: "a = 1000" and d: "destinationDetails req = Some d" by simp_all
  from read_wallet_accepts [OF s(5)] u
  have bal: "wallets st (user_id u) = Some balance" by simp
  have W: "withdraw_funds env (Some req) st =
     (fst (reconcile_ledger env st u 1000 ''mpesa'' d balance 15 transferData),
      Select_wallet (user_id u) #
        snd (check_paystack_balance (balance_fetch env) (1000 - 15)) @
        snd (resolve_recipient env ''mpesa'' d) @
        snd (initiate_transfer (transfer_fetch env) (1000 - 15) rc) @
        fst (snd (reconcile_ledger env st u 1000 ''mpesa'' d balance 15 transferData)),
      snd (snd (reconcile_ledger env st u 1000 ''mpesa'' d balance 15 transferData)))"
    using withdraw_funds_reaches_reconcile [OF s(1) s(2) s(4) s(5) s(6) s(7) s(8) s(9) s(10)]
    by (simp add: req u a assms(2) fee)
  have tr: "filter transfer_call (fst (snd (withdraw_funds env (Some req) st))) =
      [Post_transfer 98500 rc
         (snd (retryWithBackoff (\<lambda>i. fetchWithTimeout (transfer_fetch env i)) 3 1000))]"
    using s(11) math_round_98500
    by (simp add: W check_paystack_balance_trace transfer_call_resolve_recipient
          initiate_transfer_trace reconcile_ledger_def Let_def)
  have wal: "wallets (snd (snd (withdraw_funds env (Some req) st))) =
      (wallets st)(user_id u \<mapsto> balance - 1000)"
    using s(11) assms(5) bal
    by (simp add: W reconcile_ledger_def Let_def update_balance_def)
  have txs: "transactions (snd (snd (withdraw_funds env (Some req) st))) =
      transactions st @ [withdrawal_record u 1000 ''mpesa'' d 15 transferData]"
    using s(11) assms(5) bal
    by (simp add: W reconcile_ledger_def Let_def update_balance_def)
  have rec: "tx_amount (withdrawal_record u 1000 ''mpesa'' d 15 transferData) = - 1000"
    "tx_metadata (withdrawal_record u 1000 ''mpesa'' d 15 transferData) =
       Some \<lparr>payment_method = ''mpesa'', metadata_destination = d, metadata_fee = 15,
             metadata_net_amount = 985\<rparr>"
    by (simp_all add: withdrawal_record_def)
  show ?thesis
    using fee bal d tr wal txs rec by blast
qed

text \<open>
  Alice, with 5000, withdraws 1000 to an M-PESA number.
\<close>

theorem mpesa_withdrawal_of_1000_witness:
  "wallets (snd (snd (withdraw_funds healthy_env (Some mpesa_1000) ledger_5000))) ''u-alice'' =
     Some 4000 \<and>
   map tx_amount (transactions (snd (snd (withdraw_funds healthy_env (Some mpesa_1000) ledger_5000)))) =
     [- 1000]"
proof -
  have "amount mpesa_1000 = Some 1000" and "paymentMethod mpesa_1000 = ''mpesa''"
    and "auth_user healthy_env = Some alice"
    and "success (fst (withdraw_funds healthy_env (Some mpesa_1000) ledger_5000)) = Some True"
    and "\<not> transaction_insert_error healthy_env"
    by code_simp+
  from mpesa_withdrawal_of_1000 [OF this]
  obtain balance d transferData where
    "wallets ledger_5000 (user_id alice) = Some balance"
    "wallets (snd (snd (withdraw_funds healthy_env (Some mpesa_1000) ledger_5000))) =
       (wallets ledger_5000)(user_id alice \<mapsto> balance - 1000)"
    "transactions (snd (snd (withdraw_funds healthy_env (Some mpesa_1000) ledger_5000))) =
       transactions ledger_5000 @ [withdrawal_record alice 1000 ''mpesa'' d 15 transferData]"
    "tx_amount (withdrawal_record alice 1000 ''mpesa'' d 15 transferData) = - 1000"
    by blast
  then show ?thesis
    by (simp add: ledger_5000_def alice_def)
qed

text \<open>
  C3 as stated, with fee 30 and net amount 970, fails: 1000 lies in the tier up to 2500,
  whose fee is 15, and that is the fee in the response and in the record.
\<close>

theorem mpesa_fee_counterexample:
  "calculateFee 1000 ''mpesa'' \<noteq> 30 \<and>
   response_fee (fst (withdraw_funds healthy_env (Some mpesa_1000) ledger_5000)) = Some 15 \<and>
   map (map_option metadata_fee \<circ> tx_metadata)
     (transactions (snd (snd (withdraw_funds healthy_env (Some mpesa_1000) ledger_5000)))) = [Some 15]"
  by code_simp



text \<open>
  The balance query is refused at connection level three times; it is answered with a
  gateway error; it times out once and is then answered with a body that is not JSON: the
  withdrawal goes through each time. It times out three times: the withdrawal is rejected.
\<close>

theorem balance_precheck_failure_witness:
  "success (fst (withdraw_funds balance_down_env (Some mpesa_1000) ledger_5000)) = Some True \<and>
   success (fst (withdraw_funds balance_502_env (Some mpesa_1000) ledger_5000)) = Some True \<and>
   success (fst (withdraw_funds balance_garbled_env (Some mpesa_1000) ledger_5000)) = Some True \<and>
   status (fst (withdraw_funds balance_timeout_env (Some mpesa_1000) ledger_5000)) = 503"
proof -
  let ?d = "\<lparr>phone_number = units ''0712 345-678'', account_number = [], bank_name = [],
             account_name = []\<rparr>"
  let ?fee = "calculateFee 1000 (paymentMethod mpesa_1000)"
  have req: "validate_request mpesa_1000 = Inr (1000, ?d)" "?fee < 1000"
    by code_simp+
  have down: "\<not> options_request balance_down_env" "auth_user balance_down_env = Some alice"
    "read_wallet (wallet_select_error balance_down_env) ledger_5000 alice 1000 = Inr 5000"
    "or_default (paystack_secret_key balance_down_env) [] \<noteq> []"
    "fst (retryWithBackoff (\<lambda>i. fetchWithTimeout (balance_fetch balance_down_env i)) 3 1000) =
       Inl (Some ''connection refused'')"
    "success (fst (payout balance_down_env ledger_5000 alice 1000 (paymentMethod mpesa_1000)
       ?d 5000 ?fee)) = Some True"
    by code_simp+
  have bad: "\<not> options_request balance_502_env" "auth_user balance_502_env = Some alice"
    "read_wallet (wallet_select_error balance_502_env) ledger_5000 alice 1000 = Inr 5000"
    "or_default (paystack_secret_key balance_502_env) [] \<noteq> []"
    "fst (retryWithBackoff (\<lambda>i. fetchWithTimeout (balance_fetch balance_502_env i)) 3 1000) =
       Inr \<lparr>http_status = 502, json = None\<rparr>"
    "success (fst (payout balance_502_env ledger_5000 alice 1000 (paymentMethod mpesa_1000)
       ?d 5000 ?fee)) = Some True"
    by code_simp+
  have garbled: "\<not> options_request balance_garbled_env" "auth_user balance_garbled_env = Some alice"
    "read_wallet (wallet_select_error balance_garbled_env) ledger_5000 alice 1000 = Inr 5000"
    "or_default (paystack_secret_key balance_garbled_env) [] \<noteq> []"
    "fst (retryWithBackoff (\<lambda>i. fetchWithTimeout (balance_fetch balance_garbled_env i)) 3 1000) =
       Inr \<lparr>http_status = 200, json = None\<rparr>"
    "success (fst (payout balance_garbled_env ledger_5000 alice 1000 (paymentMethod mpesa_1000)
       ?d 5000 ?fee)) = Some True"
    by code_simp+
  have timeout: "\<not> options_request balance_timeout_env" "auth_user balance_timeout_env = Some alice"
    "read_wallet (wallet_select_error balance_timeout_env) ledger_5000 alice 1000 = Inr 5000"
    "or_default (paystack_secret_key balance_timeout_env) [] \<noteq> []"
    "fst (retryWithBackoff (\<lambda>i. fetchWithTimeout (balance_fetch balance_timeout_env i)) 3 1000) =
       Inl (Some ''network_timeout'')"
    by code_simp+
  have 1: "success (fst (withdraw_funds balance_down_env (Some mpesa_1000) ledger_5000)) = Some True"
    using balance_precheck_failure [OF down(1) down(2) req(1) down(3) down(4) req(2)] down(5) down(6)
    by (simp add: error_message_def)
  have 2: "success (fst (withdraw_funds balance_502_env (Some mpesa_1000) ledger_5000)) = Some True"
    using balance_precheck_failure [OF bad(1) bad(2) req(1) bad(3) bad(4) req(2)] bad(5) bad(6)
    by (simp add: ok_def)
  have 3: "success (fst (withdraw_funds balance_garbled_env (Some mpesa_1000) ledger_5000)) = Some True"
    using balance_precheck_failure [OF garbled(1) garbled(2) req(1) garbled(3) garbled(4) req(2)]
      garbled(5) garbled(6)
    by simp
  have 4: "status (fst (withdraw_funds balance_timeout_env (Some mpesa_1000) ledger_5000)) = 503"
    using balance_precheck_failure [OF timeout(1) timeout(2) req(1) timeout(3) timeout(4) req(2)]
      timeout(5)
    by (simp add: error_message_def failure_def)
  from 1 2 3 4 show ?thesis by simp
qed

text \<open>
  C1 as stated fails when the balance query times out: after three timeouts the handler
  answers HTTP 503 with code \<open>network_error\<close> and does not go on.
\<close>

theorem balance_precheck_timeout_counterexample:
  "fst (withdraw_funds balance_timeout_env (Some mpesa_1000) ledger_5000) =
     failure 503 (Text ''Network timeout. Please check your connection and try again.'')
       (Some ''network_error'') \<and>
   fst (snd (withdraw_funds balance_timeout_env (Some mpesa_1000) ledger_5000)) =
     [Select_wallet ''u-alice'', Get_balance [Attempt 0, Sleep 1000, Attempt 1, Sleep 2000, Attempt 2]]"
  by code_simp

text \<open>
  Alice withdraws 1000; the provider queues the transfer and the store refuses the debit.
\<close>

theorem debit_failure_after_transfer_witness:
  "fst (withdraw_funds debit_failure_env (Some mpesa_1000) ledger_5000) =
     failure 500 (Text ''Failed to update wallet'') None \<and>
   snd (snd (withdraw_funds debit_failure_env (Some mpesa_1000) ledger_5000)) = ledger_5000 \<and>
   length (filter transfer_call (fst (snd (withdraw_funds debit_failure_env (Some mpesa_1000) ledger_5000)))) = 1 \<and>
   last (fst (snd (withdraw_funds debit_failure_env (Some mpesa_1000) ledger_5000))) =
     Update_wallet ''u-alice'' 4000"
proof -
  let ?d = "\<lparr>phone_number = units ''0712 345-678'', account_number = [], bank_name = [],
             account_name = []\<rparr>"
  let ?t = "\<lparr>transfer_status = True, transfer_message = Some ''Transfer has been queued'',
             transfer_code = None, transfer_reference = Some ''WD1u-alice''\<rparr>"
  have "\<not> options_request debit_failure_env" and "auth_user debit_failure_env = Some alice"
    and "validate_request mpesa_1000 = Inr (1000, ?d)"
    and "read_wallet (wallet_select_error debit_failure_env) ledger_5000 alice 1000 = Inr 5000"
    and "or_default (paystack_secret_key debit_failure_env) [] \<noteq> []"
    and "calculateFee 1000 (paymentMethod mpesa_1000) < 1000"
    and "fst (check_paystack_balance (balance_fetch debit_failure_env)
           (1000 - calculateFee 1000 (paymentMethod mpesa_1000))) = None"
    and "fst (resolve_recipient debit_failure_env (paymentMethod mpesa_1000) ?d) = Inr ''RCP_1''"
    and "fst (initiate_transfer (transfer_fetch debit_failure_env)
           (1000 - calculateFee 1000 (paymentMethod mpesa_1000)) ''RCP_1'') = Inr ?t"
    and "wallet_update_error debit_failure_env"
    by code_simp+
  from debit_failure_after_transfer [OF this]
  show ?thesis by (simp add: alice_def)
qed

text \<open>
  C2 as stated fails: the response to that request is the generic HTTP 500 "Failed to
  update wallet", and its code is not \<open>ledger_inconsistency\<close>.
\<close>

theorem ledger_inconsistency_counterexample:
  "status (fst (withdraw_funds debit_failure_env (Some mpesa_1000) ledger_5000)) = 500 \<and>
   error (fst (withdraw_funds debit_failure_env (Some mpesa_1000) ledger_5000)) =
     Some (Text ''Failed to update wallet'') \<and>
   code (fst (withdraw_funds debit_failure_env (Some mpesa_1000) ledger_5000)) \<noteq>
     Some ''ledger_inconsistency'' \<and>
   filter transfer_call (fst (snd (withdraw_funds debit_failure_env (Some mpesa_1000) ledger_5000))) =
     [Post_transfer 98500 ''RCP_1'' [Attempt 0]]"
  by code_simp












end
